theory Spec2Isabelle
  imports Complex_Main
begin

section \<open>Wallet dashboard: validators, balance formatting, transfer and session machines\<close>

text \<open>
  A shallow embedding of the wallet dashboard: the helper library (\<open>lib/ethereum.ts\<close>),
  the transfer form (\<open>components/SendTransaction.tsx\<close>) and the dashboard page
  (\<open>app/page.tsx\<close>).

  Conventions. A JavaScript string is a \<open>string\<close>; its characters stand for code units
  below 256. \<open>null\<close> and \<open>undefined\<close> are \<open>None\<close>. A thrown exception is the left
  injection of a sum. Functions of the \<open>ethers\<close> package (\<open>isAddress\<close>, \<open>formatEther\<close>,
  \<open>parseEther\<close>) and the answers of the wallet are parameters of the functions that use
  them.
\<close>

subsection \<open>JavaScript string primitives\<close>

text \<open>White space as \<open>String.prototype.trim\<close> and \<open>parseFloat\<close> skip it (code units below
  256): TAB, LF, VT, FF, CR, SPACE and NBSP.\<close>

definition is_ws :: "char \<Rightarrow> bool" where
  "is_ws c = (c \<in> set [CHR 0x09, CHR 0x0A, CHR 0x0B, CHR 0x0C, CHR 0x0D, CHR 0x20, CHR 0xA0])"

definition trim :: "string \<Rightarrow> string" where
  "trim s = rev (dropWhile is_ws (rev (dropWhile is_ws s)))"

definition is_digit :: "char \<Rightarrow> bool" where
  "is_digit c = (c \<in> set ''0123456789'')"

definition digit_val :: "char \<Rightarrow> nat" where
  "digit_val c = of_char c - 48"

definition digits_val :: "string \<Rightarrow> nat" where
  "digits_val ds = foldl (\<lambda>a c. 10 * a + digit_val c) 0 ds"

text \<open>\<open>s.split(c)\<close>: the pieces of \<open>s\<close> between the occurrences of \<open>c\<close>; never empty.\<close>

fun split_pieces :: "char \<Rightarrow> string \<Rightarrow> string \<times> string list" where
  "split_pieces c [] = ([], [])"
| "split_pieces c (x # xs) =
     (let (p, ps) = split_pieces c xs
      in if x = c then ([], p # ps) else (x # p, ps))"

definition split :: "char \<Rightarrow> string \<Rightarrow> string list" where
  "split c s = (let (p, ps) = split_pieces c s in p # ps)"

text \<open>\<open>a[i]\<close> on an array: \<open>undefined\<close> out of range.\<close>

definition elem_at :: "'a list \<Rightarrow> nat \<Rightarrow> 'a option" where
  "elem_at xs i = (if i < length xs then Some (xs ! i) else None)"

text \<open>\<open>s.includes(p)\<close>.\<close>

fun str_includes :: "string \<Rightarrow> string \<Rightarrow> bool" where
  "str_includes [] p = (p = [])"
| "str_includes (c # cs) p = (take (length p) (c # cs) = p \<or> str_includes cs p)"

subsection \<open>\<open>parseFloat\<close>\<close>

text \<open>
  The result of \<open>parseFloat\<close>: \<open>NaN\<close>, an infinity, or a number, kept as its sign and
  the exact value of the decimal literal read (a rational); the double is that value
  rounded to nearest, ties to even.
\<close>

datatype jsnum = NaN | Infinity bool | Num bool rat

text \<open>\<open>parseFloat\<close> skips leading white space and reads the longest prefix that is a
  \<open>StrDecimalLiteral\<close>: a sign, then \<open>Infinity\<close> or digits with an optional fraction and
  an optional exponent. What follows the prefix is ignored; no prefix gives \<open>NaN\<close>.\<close>

fun parse_sign :: "string \<Rightarrow> bool \<times> string" where
  "parse_sign [] = (False, [])"
| "parse_sign (c # cs) =
     (if c = CHR ''-'' then (True, cs)
      else if c = CHR ''+'' then (False, cs)
      else (False, c # cs))"

definition parse_exponent :: "string \<Rightarrow> int" where
  "parse_exponent r =
     (case r of
        [] \<Rightarrow> 0
      | c # cs \<Rightarrow>
          if c = CHR ''e'' \<or> c = CHR ''E'' then
            (let (neg, ds) = parse_sign cs; digs = takeWhile is_digit ds
             in if digs = [] then 0
                else if neg then - int (digits_val digs) else int (digits_val digs))
          else 0)"

definition scale10 :: "rat \<Rightarrow> int \<Rightarrow> rat" where
  "scale10 m k = (if 0 \<le> k then m * 10 ^ nat k else m / 10 ^ nat (- k))"

definition parseFloat :: "string \<Rightarrow> jsnum" where
  "parseFloat s =
     (let (neg, u) = parse_sign (dropWhile is_ws s)
      in if take 8 u = ''Infinity'' then Infinity neg
         else
           (let ip = takeWhile is_digit u;
                r1 = dropWhile is_digit u;
                has_dot = (r1 \<noteq> [] \<and> hd r1 = CHR ''.'');
                fp = (if has_dot then takeWhile is_digit (tl r1) else []);
                r2 = (if has_dot then dropWhile is_digit (tl r1) else r1)
            in if ip = [] \<and> fp = [] then NaN
               else Num neg (scale10 (of_nat (digits_val (ip @ fp)))
                                     (parse_exponent r2 - int (length fp)))))"

definition isNaN :: "jsnum \<Rightarrow> bool" where
  "isNaN n = (n = NaN)"

text \<open>\<open>n <= 0\<close> on the double. A positive value rounds to \<open>+0\<close> exactly when it is at
  most half the least positive double, \<open>2^-1075\<close> (the tie goes to the even \<open>0\<close>);
  a negative literal gives a negative double or \<open>-0\<close>.\<close>

definition le_zero :: "jsnum \<Rightarrow> bool" where
  "le_zero n =
     (case n of
        NaN \<Rightarrow> False
      | Infinity neg \<Rightarrow> neg
      | Num neg m \<Rightarrow> neg \<or> m \<le> 1 / 2 ^ 1075)"

subsection \<open>Amount validation (\<open>validateAmount\<close>)\<close>

text \<open>The result of \<open>validateAmount\<close>: \<open>isValid\<close> and \<open>error\<close>, the latter \<open>verror\<close> here.\<close>

record AmountValidation =
  isValid :: bool
  verror :: "string option"

definition validateAmount :: "string \<Rightarrow> AmountValidation" where
  "validateAmount amount =
     (if amount = [] \<or> trim amount = [] then
        \<lparr>isValid = False, verror = Some ''Amount is required''\<rparr>
      else
        (let numAmount = parseFloat amount
         in if isNaN numAmount then
              \<lparr>isValid = False, verror = Some ''Invalid amount format''\<rparr>
            else if le_zero numAmount then
              \<lparr>isValid = False, verror = Some ''Amount must be greater than 0''\<rparr>
            else
              (let decimalParts = split CHR ''.'' amount
               in case elem_at decimalParts 1 of
                    Some d \<Rightarrow>
                      if d \<noteq> [] \<and> 18 < length d then
                        \<lparr>isValid = False, verror = Some ''Too many decimal places (max 18)''\<rparr>
                      else \<lparr>isValid = True, verror = None\<rparr>
                  | None \<Rightarrow> \<lparr>isValid = True, verror = None\<rparr>)))"

text \<open>The spec's reading of the four tests, to compare with the code: a blank string, a
  string that is a decimal number (a sign, digits, at most one point, at least one digit,
  white space around it aside), and the text after the point.\<close>

definition is_blank :: "string \<Rightarrow> bool" where
  "is_blank s = list_all is_ws s"

definition is_decimal_number :: "string \<Rightarrow> bool" where
  "is_decimal_number s =
     (let u = snd (parse_sign (trim s));
          ip = takeWhile is_digit u;
          r = dropWhile is_digit u
      in if r = [] then ip \<noteq> []
         else hd r = CHR ''.'' \<and> list_all is_digit (tl r) \<and> (ip \<noteq> [] \<or> tl r \<noteq> []))"

text \<open>What the code tests instead: whether the string starts, after white space and a
  sign, with \<open>Infinity\<close>, a digit, or a point and a digit.\<close>

definition has_number_prefix :: "string \<Rightarrow> bool" where
  "has_number_prefix s =
     (let u = snd (parse_sign (dropWhile is_ws s))
      in take 8 u = ''Infinity'' \<or>
         (case u of
            [] \<Rightarrow> False
          | c # cs \<Rightarrow>
              is_digit c \<or>
              (c = CHR ''.'' \<and> (case cs of [] \<Rightarrow> False | d # _ \<Rightarrow> is_digit d))))"

text \<open>The characters between the first point of the string and the next one.\<close>

definition fraction_text :: "string \<Rightarrow> string" where
  "fraction_text s =
     takeWhile (\<lambda>x. x \<noteq> CHR ''.'') (drop 1 (dropWhile (\<lambda>x. x \<noteq> CHR ''.'') s))"

subsection \<open>Address validation (\<open>isValidAddress\<close>)\<close>

text \<open>\<open>isValidAddress\<close> rejects the empty string and otherwise asks \<open>isAddress\<close> of the
  \<open>ethers\<close> package, which is a parameter here.\<close>

definition isValidAddress :: "(string \<Rightarrow> bool) \<Rightarrow> string \<Rightarrow> bool" where
  "isValidAddress isAddress address = (if address = [] then False else isAddress address)"

definition is_hex_digit :: "char \<Rightarrow> bool" where
  "is_hex_digit c = (c \<in> set ''0123456789abcdefABCDEF'')"

text \<open>Modelled from the spec: \<open>isAddress\<close>, imported from the \<open>ethers\<close> package; its code
  is not part of the sources. The spec: valid iff the string matches the 20-byte
  hex-with-prefix format, 40 hex digits after a fixed 2-character prefix, in any letter
  case.\<close>

definition isAddress_spec :: "string \<Rightarrow> bool" where
  "isAddress_spec s =
     (take 2 s = ''0x'' \<and> length (drop 2 s) = 40 \<and> list_all is_hex_digit (drop 2 s))"

definition lower_char :: "char \<Rightarrow> char" where
  "lower_char c =
     (case map_of (zip ''ABCDEFGHIJKLMNOPQRSTUVWXYZ'' ''abcdefghijklmnopqrstuvwxyz'') c of
        Some d \<Rightarrow> d
      | None \<Rightarrow> c)"

definition upper_char :: "char \<Rightarrow> char" where
  "upper_char c =
     (case map_of (zip ''abcdefghijklmnopqrstuvwxyz'' ''ABCDEFGHIJKLMNOPQRSTUVWXYZ'') c of
        Some d \<Rightarrow> d
      | None \<Rightarrow> c)"

definition toLowerCase :: "string \<Rightarrow> string" where
  "toLowerCase s = map lower_char s"

definition toUpperCase :: "string \<Rightarrow> string" where
  "toUpperCase s = map upper_char s"

subsection \<open>Thrown values\<close>

text \<open>What a failing call throws: a string, or an object with the optional fields \<open>code\<close>
  (a number or a string), \<open>message\<close> and \<open>reason\<close>. \<open>new Error(m)\<close> has the message only.\<close>

datatype errcode = NumCode int | StrCode string

record errorObj =
  code :: "errcode option"
  message :: "string option"
  reason :: "string option"

datatype thrown = ThrownString string | ThrownObj errorObj

definition Error :: "string \<Rightarrow> thrown" where
  "Error m = ThrownObj \<lparr>code = None, message = Some m, reason = None\<rparr>"

type_synonym 'a result = "thrown + 'a"

subsection \<open>Balance formatting (\<open>getBalance\<close>)\<close>

text \<open>The last lines of \<open>getBalance\<close>: split the formatted balance at the points, return
  the first piece alone when the second is missing or empty, and otherwise the first
  piece, a point and at most four characters of the second.\<close>

definition limit_decimals :: "string \<Rightarrow> string" where
  "limit_decimals formattedBalance =
     (let parts = split CHR ''.'' formattedBalance;
          whole = hd parts
      in case elem_at parts 1 of
           None \<Rightarrow> whole
         | Some decimal \<Rightarrow>
             if decimal = [] then whole else whole @ ''.'' @ take 4 decimal)"

text \<open>\<open>getBalance(address)\<close>: \<open>getBrowserProvider\<close> throws when there is no wallet;
  the balance query answers with an integer or throws; \<open>formatEther\<close> is the
  formatter of the \<open>ethers\<close> package.\<close>

definition not_installed_long :: string where
  "not_installed_long = ''MetaMask is not installed. Please install MetaMask to continue.''"

definition getBalance ::
  "(int \<Rightarrow> string) \<Rightarrow> (string \<Rightarrow> int result) option \<Rightarrow> string \<Rightarrow> string result" where
  "getBalance formatEther ethereum address =
     (case ethereum of
        None \<Rightarrow> Inl (Error not_installed_long)
      | Some query \<Rightarrow>
          (case query address of
             Inl e \<Rightarrow> Inl e
           | Inr balance \<Rightarrow> Inr (limit_decimals (formatEther balance))))"

subsection \<open>Classifying transaction errors (\<open>parseTransactionError\<close>)\<close>

text \<open>Reading a field of the thrown value; a string has none of the three.\<close>

definition code_of :: "thrown \<Rightarrow> errcode option" where
  "code_of e = (case e of ThrownString _ \<Rightarrow> None | ThrownObj ob \<Rightarrow> code ob)"

definition message_of :: "thrown \<Rightarrow> string option" where
  "message_of e = (case e of ThrownString _ \<Rightarrow> None | ThrownObj ob \<Rightarrow> message ob)"

definition reason_of :: "thrown \<Rightarrow> string option" where
  "reason_of e = (case e of ThrownString _ \<Rightarrow> None | ThrownObj ob \<Rightarrow> reason ob)"

text \<open>\<open>errorObj.message?.includes(p)\<close>: false when there is no message.\<close>

definition message_includes :: "thrown \<Rightarrow> string \<Rightarrow> bool" where
  "message_includes e p = (case message_of e of None \<Rightarrow> False | Some m \<Rightarrow> str_includes m p)"

text \<open>The codes of \<open>MetaMaskErrorCode\<close>.\<close>

definition USER_REJECTED :: int where "USER_REJECTED = 4001"
definition UNAUTHORIZED :: int where "UNAUTHORIZED = 4100"
definition UNSUPPORTED_METHOD :: int where "UNSUPPORTED_METHOD = 4200"
definition DISCONNECTED :: int where "DISCONNECTED = 4900"
definition CHAIN_DISCONNECTED :: int where "CHAIN_DISCONNECTED = 4901"
definition UNRECOGNIZED_CHAIN :: int where "UNRECOGNIZED_CHAIN = 4902"

text \<open>The first test of \<open>parseTransactionError\<close>: the user rejected the request.\<close>

definition is_user_rejection :: "thrown \<Rightarrow> bool" where
  "is_user_rejection e =
     (code_of e = Some (NumCode USER_REJECTED) \<or>
      code_of e = Some (StrCode ''ACTION_REJECTED'') \<or>
      message_includes e ''user rejected'' \<or>
      message_includes e ''User denied'')"

definition parseTransactionError :: "thrown \<Rightarrow> string" where
  "parseTransactionError e =
     (if is_user_rejection e then ''Transaction cancelled by user.''
      else if code_of e = Some (StrCode ''INSUFFICIENT_FUNDS'') \<or>
              message_includes e ''insufficient funds'' \<or>
              message_includes e ''Insufficient funds''
        then ''Insufficient ETH balance to complete this transaction.''
      else if message_includes e ''gas'' then ''Failed to estimate gas. The transaction may fail.''
      else if message_includes e ''nonce'' then ''Transaction nonce error. Please try again.''
      else if message_includes e ''network'' \<or> code_of e = Some (StrCode ''NETWORK_ERROR'')
        then ''Network error. Please check your connection.''
      else
        (case reason_of e of
           Some (c # r) \<Rightarrow> c # r
         | _ \<Rightarrow>
             (case message_of e of
                Some (c # m) \<Rightarrow>
                  if 100 < length (c # m) then take 100 (c # m) @ ''...'' else c # m
              | _ \<Rightarrow> ''Transaction failed. Please try again.'')))"

subsection \<open>Effects\<close>

text \<open>The state of a transfer (\<open>TransactionState\<close>; its field \<open>error\<close> is \<open>txError\<close> here,
  since the wallet state has a field of that name too).\<close>

datatype TransactionStatus = idle | sending | pending | confirmed | failed

record TransactionState =
  status :: TransactionStatus
  hash :: "string option"
  txError :: "string option"

text \<open>What a handler does besides changing its component's state, in the order it does
  it: requests to the wallet, notifications, the call of the completion callback, writes
  to the console, and the calls of \<open>setTxState\<close> of the transfer form (so that the states
  a transfer passes through can be read off the trace).\<close>

datatype ToastType = T_success | T_error | T_warning | T_info

datatype effect =
    Request string
  | GetSigner
  | GetBalance string
  | SignerSendTransaction string int
  | WaitForReceipt string
  | AddToast string ToastType
  | OnTransactionComplete
  | SetTxState TransactionState
  | ConsoleError

subsection \<open>Sending a transaction (\<open>sendTransaction\<close>)\<close>

text \<open>The wallet as one transfer sees it: whether \<open>window.ethereum\<close> exists, what
  \<open>getSigner\<close> throws if it throws, what \<open>signer.sendTransaction\<close> answers for a
  recipient and a value (the hash of the transaction, or a thrown value) and what
  \<open>tx.wait()\<close> answers for a hash: \<open>null\<close>, a receipt with its status, or a thrown
  value.\<close>

record Wallet =
  has_ethereum :: bool
  getSigner :: "thrown option"
  signer_sendTransaction :: "string \<Rightarrow> int \<Rightarrow> string result"
  tx_wait :: "string \<Rightarrow> int option option result"

text \<open>\<open>sendTransaction\<close> validates both inputs before anything else; \<open>isAddress\<close> and
  \<open>parseEther\<close> are the functions of the \<open>ethers\<close> package. The result is the hash of
  the submitted transaction, with the requests made.\<close>

definition sendTransaction ::
  "(string \<Rightarrow> bool) \<Rightarrow> (string \<Rightarrow> int result) \<Rightarrow> Wallet \<Rightarrow> string \<Rightarrow> string \<Rightarrow>
     string result \<times> effect list" where
  "sendTransaction isAddress parseEther w recipientAddress amountInEth =
     (if \<not> isValidAddress isAddress recipientAddress then
        (Inl (Error ''Invalid recipient address''), [])
      else
        (let amountValidation = validateAmount amountInEth
         in if \<not> isValid amountValidation then
              (Inl (Error (case verror amountValidation of
                             Some (c # m) \<Rightarrow> c # m
                           | _ \<Rightarrow> ''Invalid amount'')), [])
            else if \<not> has_ethereum w then (Inl (Error not_installed_long), [])
            else
              (case getSigner w of
                 Some e \<Rightarrow> (Inl e, [GetSigner])
               | None \<Rightarrow>
                   (case parseEther amountInEth of
                      Inl e \<Rightarrow> (Inl e, [GetSigner])
                    | Inr amountInWei \<Rightarrow>
                        (signer_sendTransaction w recipientAddress amountInWei,
                         [GetSigner, SignerSendTransaction recipientAddress amountInWei])))))"

subsection \<open>The transfer form (\<open>SendTransaction\<close>)\<close>

definition INITIAL_TRANSACTION_STATE :: TransactionState where
  "INITIAL_TRANSACTION_STATE = \<lparr>status = idle, hash = None, txError = None\<rparr>"

record TransactionFormData =
  recipient :: string
  amount :: string

record FormErrors =
  recipientError :: "string option"
  amountError :: "string option"

text \<open>The state of the component: the form, its validation errors, the transfer.\<close>

record SendTransaction =
  formData :: TransactionFormData
  formErrors :: FormErrors
  txState :: TransactionState

definition validateRecipient :: "(string \<Rightarrow> bool) \<Rightarrow> string \<Rightarrow> string option" where
  "validateRecipient isAddress address =
     (if trim address = [] then Some ''Recipient address is required''
      else if \<not> isValidAddress isAddress address then Some ''Invalid Ethereum address''
      else None)"

text \<open>\<open>validateForm\<close> stores both errors and answers \<open>!recipientError && amountValid\<close>.\<close>

definition validateForm :: "(string \<Rightarrow> bool) \<Rightarrow> TransactionFormData \<Rightarrow> FormErrors \<times> bool" where
  "validateForm isAddress fd =
     (let recipientError = validateRecipient isAddress (recipient fd);
          v = validateAmount (amount fd)
      in (\<lparr>recipientError = recipientError, amountError = verror v\<rparr>,
          (case recipientError of None \<Rightarrow> True | Some m \<Rightarrow> m = []) \<and> isValid v))"

text \<open>The \<open>catch\<close> block of \<open>handleSubmit\<close>.\<close>

definition submit_failed :: "thrown \<Rightarrow> SendTransaction \<times> effect list \<Rightarrow> SendTransaction \<times> effect list" where
  "submit_failed e sf =
     (let errorMessage = parseTransactionError e;
          ts = \<lparr>status = failed, hash = None, txError = Some errorMessage\<rparr>
      in ((fst sf)\<lparr>txState := ts\<rparr>,
          snd sf @ [SetTxState ts, AddToast errorMessage T_error]))"

text \<open>\<open>handleSubmit\<close>, run to its end against the answers of the wallet.
  \<open>onTransactionComplete\<close> tells whether the optional callback was given; a given
  callback returns normally, as the one the dashboard passes does.\<close>

definition handleSubmit ::
  "(string \<Rightarrow> bool) \<Rightarrow> (string \<Rightarrow> int result) \<Rightarrow> Wallet \<Rightarrow> bool \<Rightarrow> SendTransaction \<Rightarrow>
     SendTransaction \<times> effect list" where
  "handleSubmit isAddress parseEther w onTransactionComplete s =
     (let (errs, ok) = validateForm isAddress (formData s);
          s0 = s\<lparr>formErrors := errs\<rparr>
      in if \<not> ok then (s0, [])
         else
           (let ts1 = \<lparr>status = sending, hash = None, txError = None\<rparr>;
                s1 = s0\<lparr>txState := ts1\<rparr>;
                (r, fx) = sendTransaction isAddress parseEther w
                            (recipient (formData s)) (amount (formData s));
                fx1 = SetTxState ts1 # fx
            in case r of
                 Inl e \<Rightarrow> submit_failed e (s1, fx1)
               | Inr h \<Rightarrow>
                   (let ts2 = \<lparr>status = pending, hash = Some h, txError = None\<rparr>;
                        s2 = s1\<lparr>txState := ts2\<rparr>;
                        fx2 = fx1 @ [SetTxState ts2,
                                AddToast ''Transaction submitted! Waiting for confirmation...'' T_info,
                                WaitForReceipt h]
                    in case tx_wait w h of
                         Inl e \<Rightarrow> submit_failed e (s2, fx2)
                       | Inr receipt \<Rightarrow>
                           if receipt = Some (Some 1) then
                             (let ts3 = \<lparr>status = confirmed, hash = Some h, txError = None\<rparr>
                              in (s2\<lparr>txState := ts3, formData := \<lparr>recipient = [], amount = []\<rparr>\<rparr>,
                                  fx2 @ [SetTxState ts3,
                                     AddToast ''Transaction confirmed successfully!'' T_success] @
                                  (if onTransactionComplete then [OnTransactionComplete] else [])))
                           else
                             (let ts3 = \<lparr>status = failed, hash = Some h,
                                          txError = Some ''Transaction failed on chain''\<rparr>
                              in (s2\<lparr>txState := ts3\<rparr>,
                                  fx2 @ [SetTxState ts3,
                                     AddToast ''Transaction failed on chain'' T_error])))))"

text \<open>Whether a trace passes through a transfer state of the given status.\<close>

definition reaches :: "TransactionStatus \<Rightarrow> effect list \<Rightarrow> bool" where
  "reaches st fx = list_ex (\<lambda>e. case e of SetTxState ts \<Rightarrow> status ts = st | _ \<Rightarrow> False) fx"

subsection \<open>Classifying connection errors (\<open>parseWeb3Error\<close>)\<close>

definition parseWeb3Error :: "thrown \<Rightarrow> string" where
  "parseWeb3Error e =
     (case e of
        ThrownString s \<Rightarrow> s
      | ThrownObj ob \<Rightarrow>
          if code ob = Some (NumCode USER_REJECTED) then
            ''Connection rejected. Please approve the connection in MetaMask.''
          else if code ob = Some (NumCode UNAUTHORIZED) then
            ''Unauthorized. Please connect your wallet first.''
          else if code ob = Some (NumCode UNSUPPORTED_METHOD) then
            ''This action is not supported by your wallet.''
          else if code ob = Some (NumCode DISCONNECTED) then
            ''Wallet is disconnected. Please reconnect.''
          else if code ob = Some (NumCode CHAIN_DISCONNECTED) then
            ''Disconnected from the chain. Please check your network.''
          else if code ob = Some (NumCode UNRECOGNIZED_CHAIN) then
            ''Network not recognized. Please add it to your wallet.''
          else
            (case message ob of
               Some (c # m) \<Rightarrow>
                 if str_includes (c # m) ''user rejected'' then ''Request cancelled by user.''
                 else c # m
             | _ \<Rightarrow> ''An unexpected error occurred. Please try again.''))"

subsection \<open>The listeners of the wallet (\<open>setupWalletListeners\<close>)\<close>

text \<open>
  The wallet keeps a list of registered listeners, each an event name and a handler.
  \<open>ethereum.on\<close> appends one; \<open>ethereum.removeListener\<close> removes the most recently added
  registration of that handler for that event, if there is one. A handler is identified
  by the number of the \<open>setupWalletListeners\<close> call that created it: a call creates one
  closure per event, so the event name and the number name the closure.
\<close>

type_synonym listener_list = "(string \<times> nat) list"

definition ethereum_on :: "listener_list \<Rightarrow> string \<Rightarrow> nat \<Rightarrow> listener_list" where
  "ethereum_on reg ev h = reg @ [(ev, h)]"

definition ethereum_removeListener :: "listener_list \<Rightarrow> string \<Rightarrow> nat \<Rightarrow> listener_list" where
  "ethereum_removeListener reg ev h = rev (remove1 (ev, h) (rev reg))"

text \<open>The cleanup function that call number \<open>k\<close> returns.\<close>

definition removeListeners :: "nat \<Rightarrow> listener_list \<Rightarrow> listener_list" where
  "removeListeners k reg =
     ethereum_removeListener
       (ethereum_removeListener
          (ethereum_removeListener reg ''accountsChanged'' k)
          ''chainChanged'' k)
       ''disconnect'' k"

text \<open>\<open>setupWalletListeners\<close>, call number \<open>k\<close>, on the listener list \<open>reg\<close>: the new list
  and the cleanup function. \<open>ethereum\<close> tells whether \<open>window.ethereum\<close> exists.\<close>

definition setupWalletListeners ::
  "bool \<Rightarrow> nat \<Rightarrow> listener_list \<Rightarrow> listener_list \<times> (listener_list \<Rightarrow> listener_list)" where
  "setupWalletListeners ethereum k reg =
     (if \<not> ethereum then (reg, \<lambda>r. r)
      else
        (ethereum_on
           (ethereum_on
              (ethereum_on reg ''accountsChanged'' k)
              ''chainChanged'' k)
           ''disconnect'' k,
         removeListeners k))"

subsection \<open>The dashboard (\<open>app/page.tsx\<close>)\<close>

record WalletState =
  isConnected :: bool
  address :: "string option"
  chainId :: "string option"
  balance :: "string option"
  isLoading :: bool
  error :: "string option"

definition INITIAL_WALLET_STATE :: WalletState where
  "INITIAL_WALLET_STATE =
     \<lparr>isConnected = False, address = None, chainId = None, balance = None,
      isLoading = False, error = None\<rparr>"

text \<open>The browser: whether \<open>window.ethereum\<close> exists and whether it says it is MetaMask.\<close>

record Browser =
  ethereum_present :: bool
  ethereum_isMetaMask :: bool

definition isMetaMaskInstalled :: "Browser \<Rightarrow> bool" where
  "isMetaMaskInstalled b = (ethereum_present b \<and> ethereum_isMetaMask b)"

text \<open>
  An asynchronous handler runs up to its first \<open>await\<close> and leaves an operation in flight;
  when the wallet answers, the rest of the handler runs against the state of that moment
  (its updates are functional: \<open>setWalletState(prev => ...)\<close>). The operations in flight:
  a \<open>handleConnect\<close>, the \<open>checkExistingConnection\<close> of the mount, and a
  \<open>refreshBalance\<close> of an address, with the notification its caller shows afterwards.
\<close>

datatype pending_op = PConnect | PCheck | PRefresh string "string option"

text \<open>
  The state of the page. \<open>walletState\<close> and \<open>isMetaMaskAvailable\<close> are the two state
  variables as React holds them, with every update made so far applied. \<open>rendered\<close> and
  \<open>rendered_available\<close> are their values at the last render. A handler is a closure of
  the render that created it: what it reads of \<open>walletState\<close> (\<open>isLoading\<close> in
  \<open>handleConnect\<close>, \<open>address\<close> in \<open>handleAccountsChanged\<close> and \<open>handleChainChanged\<close>) is
  the value of that render, and stays so until React renders again, however many handlers
  run in between. Then come the listener list of the wallet, the cleanup function React
  holds for the listener effect, the number of the next \<open>setupWalletListeners\<close> call, the
  operations in flight, and the trace of effects so far.
\<close>

record Dashboard =
  walletState :: WalletState
  isMetaMaskAvailable :: "bool option"
  rendered :: WalletState
  rendered_available :: "bool option"
  listeners :: listener_list
  cleanup :: "(listener_list \<Rightarrow> listener_list) option"
  next_handler :: nat
  in_flight :: "pending_op list"
  trace :: "effect list"

definition updateWalletState :: "(WalletState \<Rightarrow> WalletState) \<Rightarrow> Dashboard \<Rightarrow> Dashboard" where
  "updateWalletState update d = d\<lparr>walletState := update (walletState d)\<rparr>"

definition emit :: "effect \<Rightarrow> Dashboard \<Rightarrow> Dashboard" where
  "emit e d = d\<lparr>trace := trace d @ [e]\<rparr>"

definition addToast :: "string \<Rightarrow> ToastType \<Rightarrow> Dashboard \<Rightarrow> Dashboard" where
  "addToast m t d = emit (AddToast m t) d"

definition await :: "pending_op \<Rightarrow> Dashboard \<Rightarrow> Dashboard" where
  "await op d = d\<lparr>in_flight := in_flight d @ [op]\<rparr>"

text \<open>\<open>refreshBalance(address)\<close>: the query, and what happens when it is answered.\<close>

definition refreshBalance :: "string \<Rightarrow> string option \<Rightarrow> Dashboard \<Rightarrow> Dashboard" where
  "refreshBalance a toast d = await (PRefresh a toast) (emit (GetBalance a) d)"

definition refreshBalance_resume :: "string result \<Rightarrow> string option \<Rightarrow> Dashboard \<Rightarrow> Dashboard" where
  "refreshBalance_resume r toast d =
     (let d1 = (case r of
                  Inl e \<Rightarrow> emit ConsoleError d
                | Inr b \<Rightarrow> updateWalletState (\<lambda>s. s\<lparr>balance := Some b\<rparr>) d)
      in case toast of None \<Rightarrow> d1 | Some m \<Rightarrow> addToast m T_info d1)"

text \<open>\<open>handleConnect\<close>: the \<open>catch\<close> block, the part up to the first \<open>await\<close>, and the
  rest, run against the answers to \<open>connectWallet()\<close>, \<open>getChainId()\<close> and
  \<open>getBalance(address)\<close>. The guard tests the \<open>walletState.isLoading\<close> of the render the
  handler belongs to; \<open>updateWalletState\<close> changes the state React holds, not that
  value.\<close>

definition connect_failed :: "thrown \<Rightarrow> Dashboard \<Rightarrow> Dashboard" where
  "connect_failed e d =
     (let errorMessage = parseWeb3Error e
      in addToast errorMessage T_error
           (updateWalletState (\<lambda>s. s\<lparr>isLoading := False, error := Some errorMessage\<rparr>) d))"

definition handleConnect :: "Browser \<Rightarrow> Dashboard \<Rightarrow> Dashboard" where
  "handleConnect b d =
     (if isLoading (rendered d) then d
      else
        (let d1 = updateWalletState (\<lambda>s. s\<lparr>isLoading := True, error := None\<rparr>) d
         in if \<not> isMetaMaskInstalled b then connect_failed (Error not_installed_long) d1
            else await PConnect (emit (Request ''eth_requestAccounts'') d1)))"

definition handleConnect_resume ::
  "string result \<Rightarrow> string result \<Rightarrow> string result \<Rightarrow> Dashboard \<Rightarrow> Dashboard" where
  "handleConnect_resume cw ch bl d =
     (case cw of
        Inl e \<Rightarrow> connect_failed e d
      | Inr a \<Rightarrow>
          (let d1 = emit (Request ''eth_chainId'') d
           in case ch of
                Inl e \<Rightarrow> connect_failed e d1
              | Inr c \<Rightarrow>
                  (let d2 = emit (GetBalance a) d1
                   in case bl of
                        Inl e \<Rightarrow> connect_failed e d2
                      | Inr v \<Rightarrow>
                          addToast ''Wallet connected successfully!'' T_success
                            (updateWalletState
                               (\<lambda>s. s\<lparr>isConnected := True, address := Some a,
                                      chainId := Some c, balance := Some v,
                                      isLoading := False\<rparr>) d2))))"

definition handleDisconnect :: "Dashboard \<Rightarrow> Dashboard" where
  "handleDisconnect d =
     addToast ''Wallet disconnected'' T_info (d\<lparr>walletState := INITIAL_WALLET_STATE\<rparr>)"

text \<open>\<open>handleAccountsChanged\<close> and \<open>handleChainChanged\<close> compare with, and refresh, the
  \<open>walletState.address\<close> of their render.\<close>

definition handleAccountsChanged :: "string list \<Rightarrow> Dashboard \<Rightarrow> Dashboard" where
  "handleAccountsChanged accounts d =
     (case accounts of
        [] \<Rightarrow> addToast ''Wallet disconnected'' T_info (d\<lparr>walletState := INITIAL_WALLET_STATE\<rparr>)
      | newAddress # _ \<Rightarrow>
          if Some newAddress \<noteq> address (rendered d) then
            refreshBalance newAddress (Some ''Account changed'')
              (updateWalletState (\<lambda>s. s\<lparr>address := Some newAddress\<rparr>) d)
          else d)"

definition handleChainChanged :: "string \<Rightarrow> Dashboard \<Rightarrow> Dashboard" where
  "handleChainChanged c d =
     (let d1 = updateWalletState (\<lambda>s. s\<lparr>chainId := Some c\<rparr>) d
      in case address (rendered d) of
           Some (x # xs) \<Rightarrow> refreshBalance (x # xs) (Some ''Network changed'') d1
         | _ \<Rightarrow> addToast ''Network changed'' T_info d1)"

text \<open>The callback the page passes to the transfer form: refresh the balance of the
  address the page showed when the form was rendered.\<close>

definition onTransactionComplete :: "string option \<Rightarrow> Dashboard \<Rightarrow> Dashboard" where
  "onTransactionComplete shown d =
     (case shown of Some (x # xs) \<Rightarrow> refreshBalance (x # xs) None d | _ \<Rightarrow> d)"

text \<open>\<open>checkExistingConnection\<close>, run by the mount effect: the part up to the first
  \<open>await\<close> is in \<open>mount\<close> below; the rest runs against the answers to
  \<open>getConnectedAccounts()\<close> (which never throws), \<open>getChainId()\<close> and \<open>getBalance\<close>.\<close>

definition checkExistingConnection_resume ::
  "string list \<Rightarrow> string result \<Rightarrow> string result \<Rightarrow> Dashboard \<Rightarrow> Dashboard" where
  "checkExistingConnection_resume accounts ch bl d =
     (case accounts of
        [] \<Rightarrow> d
      | a # _ \<Rightarrow>
          (let d1 = emit (Request ''eth_chainId'') d
           in case ch of
                Inl e \<Rightarrow> emit ConsoleError d1
              | Inr c \<Rightarrow>
                  (let d2 = emit (GetBalance a) d1
                   in case bl of
                        Inl e \<Rightarrow> emit ConsoleError d2
                      | Inr v \<Rightarrow>
                          updateWalletState
                            (\<lambda>s. s\<lparr>isConnected := True, address := Some a,
                                   chainId := Some c, balance := Some v\<rparr>) d2)))"

text \<open>
  The listener effect. Its dependencies are \<open>isMetaMaskAvailable\<close>,
  \<open>walletState.isConnected\<close> and the three handlers, which \<open>useCallback\<close> renews exactly
  when \<open>walletState.address\<close> differs from that of the render before. So the effect runs
  again at a render where one of these three values differs from the render before, and
  the handlers registered with the wallet are always those of a render with the address of
  the last one. The effect first calls the cleanup function of its previous run, then the
  body: nothing unless MetaMask is available and the wallet connected in this render, else
  \<open>setupWalletListeners\<close>, whose cleanup function React keeps.
\<close>

definition effect_deps :: "Dashboard \<Rightarrow> bool option \<times> bool \<times> string option" where
  "effect_deps d = (rendered_available d, isConnected (rendered d), address (rendered d))"

definition run_listener_effect :: "Browser \<Rightarrow> Dashboard \<Rightarrow> Dashboard" where
  "run_listener_effect b d =
     (let d1 = (case cleanup d of
                  None \<Rightarrow> d
                | Some c \<Rightarrow> d\<lparr>listeners := c (listeners d), cleanup := None\<rparr>)
      in if rendered_available d1 \<noteq> Some True \<or> \<not> isConnected (rendered d1) then d1
         else
           (let (reg, c) = setupWalletListeners (ethereum_present b) (next_handler d1)
                             (listeners d1)
            in d1\<lparr>listeners := reg, cleanup := Some c,
                  next_handler := Suc (next_handler d1)\<rparr>))"

text \<open>React renders the page: the handlers are closures of the state as it is now, and
  the listener effect runs if its dependencies changed. Nothing renders the page between
  two handlers that run before React gets to it.\<close>

definition render :: "Browser \<Rightarrow> Dashboard \<Rightarrow> Dashboard" where
  "render b d =
     (let new = d\<lparr>rendered := walletState d, rendered_available := isMetaMaskAvailable d\<rparr>
      in if effect_deps new = effect_deps d then new else run_listener_effect b new)"

text \<open>What happens to the page: a call of \<open>handleConnect\<close> or \<open>handleDisconnect\<close> (a click
  on one of the two buttons), an event the wallet emits, the answer to an operation in
  flight, the completion of a transfer, a render.\<close>

datatype wallet_event = AccountsChanged "string list" | ChainChanged string | Disconnect

datatype outcome =
    ConnectOutcome "string result" "string result" "string result"
  | CheckOutcome "string list" "string result" "string result"
  | BalanceOutcome "string result"

datatype event =
    ClickConnect
  | ClickDisconnect
  | Emit wallet_event
  | Settle nat outcome
  | TransactionCompleted "string option"
  | Render

fun event_name :: "wallet_event \<Rightarrow> string" where
  "event_name (AccountsChanged _) = ''accountsChanged''"
| "event_name (ChainChanged _) = ''chainChanged''"
| "event_name Disconnect = ''disconnect''"

fun handle_wallet_event :: "wallet_event \<Rightarrow> Dashboard \<Rightarrow> Dashboard" where
  "handle_wallet_event (AccountsChanged accounts) d = handleAccountsChanged accounts d"
| "handle_wallet_event (ChainChanged c) d = handleChainChanged c d"
| "handle_wallet_event Disconnect d = handleDisconnect d"

text \<open>The wallet emits an event: every listener registered for its name is called.\<close>

definition dispatch :: "wallet_event \<Rightarrow> Dashboard \<Rightarrow> Dashboard" where
  "dispatch we d =
     foldl (\<lambda>d' l. handle_wallet_event we d') d
       (filter (\<lambda>l. fst l = event_name we) (listeners d))"

text \<open>The answer to the operation in flight number \<open>i\<close>.\<close>

definition settle :: "nat \<Rightarrow> outcome \<Rightarrow> Dashboard \<Rightarrow> Dashboard" where
  "settle i oc d =
     (if i < length (in_flight d) then
        (let d' = d\<lparr>in_flight := take i (in_flight d) @ drop (Suc i) (in_flight d)\<rparr>
         in case (in_flight d ! i, oc) of
              (PConnect, ConnectOutcome cw ch bl) \<Rightarrow> handleConnect_resume cw ch bl d'
            | (PCheck, CheckOutcome accounts ch bl) \<Rightarrow>
                checkExistingConnection_resume accounts ch bl d'
            | (PRefresh a toast, BalanceOutcome r) \<Rightarrow> refreshBalance_resume r toast d'
            | _ \<Rightarrow> d)
      else d)"

text \<open>One step of the page.\<close>

fun step :: "Browser \<Rightarrow> Dashboard \<Rightarrow> event \<Rightarrow> Dashboard" where
  "step b d ClickConnect = handleConnect b d"
| "step b d ClickDisconnect = handleDisconnect d"
| "step b d (Emit we) = dispatch we d"
| "step b d (Settle i oc) = settle i oc d"
| "step b d (TransactionCompleted shown) = onTransactionComplete shown d"
| "step b d Render = render b d"

text \<open>The page after mounting. The first render shows the initial state, with
  \<open>isMetaMaskAvailable\<close> still \<open>null\<close>, so the listener effect has nothing to do;
  \<open>checkExistingConnection\<close> sets \<open>isMetaMaskAvailable\<close> and goes on to ask for the accounts
  when MetaMask is installed.\<close>

definition mount :: "Browser \<Rightarrow> Dashboard" where
  "mount b =
     (let isInstalled = isMetaMaskInstalled b
      in \<lparr>walletState = INITIAL_WALLET_STATE,
          isMetaMaskAvailable = Some isInstalled,
          rendered = INITIAL_WALLET_STATE,
          rendered_available = None,
          listeners = [],
          cleanup = None,
          next_handler = 0,
          in_flight = (if isInstalled then [PCheck] else []),
          trace = (if isInstalled then [Request ''eth_accounts''] else [])\<rparr>)"

definition run :: "Browser \<Rightarrow> event list \<Rightarrow> Dashboard" where
  "run b evs = foldl (step b) (mount b) evs"

text \<open>The connection status of the spec, read off the two flags.\<close>

datatype ConnectionStatus = Disconnected | Connecting | Connected

definition connectionStatus :: "WalletState \<Rightarrow> ConnectionStatus" where
  "connectionStatus s =
     (if isConnected s then Connected else if isLoading s then Connecting else Disconnected)"



subsection \<open>Invariants of the dashboard\<close>


text \<open>The three registrations that call number \<open>k\<close> of \<open>setupWalletListeners\<close> makes.\<close>

definition registrations :: "nat \<Rightarrow> listener_list" where
  "registrations k = [(''accountsChanged'', k), (''chainChanged'', k), (''disconnect'', k)]"

text \<open>What holds in every state of the page: a connected wallet has an address, in the
  state and in the last render; \<open>isMetaMaskAvailable\<close> is what \<open>isMetaMaskInstalled\<close> said
  at the mount; a connection, or an attempt in flight, needs MetaMask; and the listeners
  of the page are registered, once, exactly while the last render showed the wallet
  connected.\<close>

definition flags_ok :: "Browser \<Rightarrow> Dashboard \<Rightarrow> bool" where
  "flags_ok b d =
     ((isConnected (walletState d) \<longrightarrow> address (walletState d) \<noteq> None) \<and>
      (isConnected (rendered d) \<longrightarrow> address (rendered d) \<noteq> None) \<and>
      isMetaMaskAvailable d = Some (isMetaMaskInstalled b) \<and>
      (PConnect \<in> set (in_flight d) \<or> PCheck \<in> set (in_flight d) \<longrightarrow> isMetaMaskInstalled b) \<and>
      (isConnected (walletState d) \<longrightarrow> isMetaMaskInstalled b) \<and>
      (isConnected (rendered d) \<longrightarrow> rendered_available d = Some True \<and> isMetaMaskInstalled b))"

definition listeners_ok :: "Dashboard \<Rightarrow> bool" where
  "listeners_ok d =
     (if isConnected (rendered d) then
        (\<exists>k. listeners d = registrations k \<and> cleanup d = Some (removeListeners k))
      else listeners d = [] \<and> cleanup d = None)"

definition dashboard_ok :: "Browser \<Rightarrow> Dashboard \<Rightarrow> bool" where
  "dashboard_ok b d = (flags_ok b d \<and> listeners_ok d)"

text \<open>A handler leaves the last render, the listener list, the cleanup function, the
  call counter and \<open>isMetaMaskAvailable\<close> alone.\<close>

definition same_wiring :: "Dashboard \<Rightarrow> Dashboard \<Rightarrow> bool" where
  "same_wiring d d' =
     (listeners d' = listeners d \<and> cleanup d' = cleanup d \<and>
      next_handler d' = next_handler d \<and> isMetaMaskAvailable d' = isMetaMaskAvailable d \<and>
      rendered d' = rendered d \<and> rendered_available d' = rendered_available d)"

subsection \<open>Example wallets and forms\<close>

text \<open>A stand-in for \<open>isAddress\<close> and for \<open>parseEther\<close> in the examples, and four wallets.
  One confirms. One has the transaction mined and reverted: \<open>tx.wait()\<close> of ethers 6 then
  rejects with a \<open>CALL_EXCEPTION\<close> error, whose message (abridged here) quotes the receipt.
  One has the user reject the request. One refuses the submission, naming the gas fee.\<close>

definition starts_0x :: "string \<Rightarrow> bool" where
  "starts_0x a = (take 2 a = ''0x'')"

definition whole_ether :: "string \<Rightarrow> int result" where
  "whole_ether a = Inr (int (digits_val a) * 10 ^ 18)"

definition wallet_confirms :: Wallet where
  "wallet_confirms =
     \<lparr>has_ethereum = True, getSigner = None,
      signer_sendTransaction = (\<lambda>to v. Inr ''0xfeed''),
      tx_wait = (\<lambda>h. Inr (Some (Some 1)))\<rparr>"

definition call_exception :: thrown where
  "call_exception =
     ThrownObj \<lparr>code = Some (StrCode ''CALL_EXCEPTION''),
                message = Some (''transaction execution reverted (action=sendTransaction, '' @
                                ''receipt={ gasUsed: 21000, status: 0 }, code=CALL_EXCEPTION)''),
                reason = None\<rparr>"

definition wallet_reverts :: Wallet where
  "wallet_reverts =
     \<lparr>has_ethereum = True, getSigner = None,
      signer_sendTransaction = (\<lambda>to v. Inr ''0xfeed''),
      tx_wait = (\<lambda>h. Inl call_exception)\<rparr>"

definition user_rejected :: thrown where
  "user_rejected =
     ThrownObj \<lparr>code = Some (NumCode 4001),
                message = Some ''MetaMask Tx Signature: User denied transaction signature.'',
                reason = None\<rparr>"

definition wallet_rejects :: Wallet where
  "wallet_rejects =
     \<lparr>has_ethereum = True, getSigner = None,
      signer_sendTransaction = (\<lambda>to v. Inl user_rejected),
      tx_wait = (\<lambda>h. Inr None)\<rparr>"

definition fee_refused :: thrown where
  "fee_refused =
     ThrownObj \<lparr>code = Some (NumCode (- 32000)),
                message = Some ''max fee per gas less than block base fee'',
                reason = None\<rparr>"

definition wallet_refuses :: Wallet where
  "wallet_refuses =
     \<lparr>has_ethereum = True, getSigner = None,
      signer_sendTransaction = (\<lambda>to v. Inl fee_refused),
      tx_wait = (\<lambda>h. Inr None)\<rparr>"

definition form_ok :: SendTransaction where
  "form_ok =
     \<lparr>formData = \<lparr>recipient = ''0xb0b'', amount = ''2''\<rparr>,
      formErrors = \<lparr>recipientError = None, amountError = None\<rparr>,
      txState = INITIAL_TRANSACTION_STATE\<rparr>"

definition form_bad :: SendTransaction where
  "form_bad =
     \<lparr>formData = \<lparr>recipient = ''bob'', amount = ''2''\<rparr>,
      formErrors = \<lparr>recipientError = None, amountError = None\<rparr>,
      txState = INITIAL_TRANSACTION_STATE\<rparr>"

text \<open>A browser with MetaMask, the answers to a connection attempt that succeeds (the
  address as \<open>ethers\<close> reports it, in mixed case, the chain, the balance), and the answers
  to the check at the mount when the wallet has an account connected already.\<close>

definition metamask :: Browser where
  "metamask = \<lparr>ethereum_present = True, ethereum_isMetaMask = True\<rparr>"

definition connect_ok :: outcome where
  "connect_ok =
     ConnectOutcome (Inr ''0x5aAeb6053F3E94C9b9A09f33669435E7Ef1BeAed'')
       (Inr ''0xaa36a7'') (Inr ''1.5'')"

definition check_ok :: outcome where
  "check_ok =
     CheckOutcome [''0x5aaeb6053f3e94c9b9a09f33669435e7ef1beaed'']
       (Inr ''0xaa36a7'') (Inr ''1.5'')"


section \<open>Properties of the validators\<close>

lemma trim_empty_iff: "trim s = [] \<longleftrightarrow> list_all is_ws s"
proof -
  have "dropWhile is_ws s = [] \<longleftrightarrow> list_all is_ws s"
    by (simp add: list_all_iff)
  moreover have "dropWhile is_ws (rev (dropWhile is_ws s)) = [] \<longleftrightarrow> dropWhile is_ws s = []"
  proof
    assume a: "dropWhile is_ws (rev (dropWhile is_ws s)) = []"
    show "dropWhile is_ws s = []"
    proof (rule ccontr)
      assume n: "dropWhile is_ws s \<noteq> []"
      then have "\<not> is_ws (hd (dropWhile is_ws s))" by (rule hd_dropWhile)
      moreover have "hd (dropWhile is_ws s) \<in> set (rev (dropWhile is_ws s))" using n by simp
      ultimately show False using a by auto
    qed
  next
    assume e: "dropWhile is_ws s = []"
    show "dropWhile is_ws (rev (dropWhile is_ws s)) = []" unfolding e by simp
  qed
  ultimately show ?thesis by (simp add: trim_def)
qed

lemma split_pieces_unfold:
  "split_pieces c s =
     (takeWhile (\<lambda>x. x \<noteq> c) s,
      case dropWhile (\<lambda>x. x \<noteq> c) s of
        [] \<Rightarrow> []
      | _ # r \<Rightarrow> fst (split_pieces c r) # snd (split_pieces c r))"
  by (induction s) (simp_all add: case_prod_beta)

lemma split_unfold:
  "split c s = takeWhile (\<lambda>x. x \<noteq> c) s #
     (case dropWhile (\<lambda>x. x \<noteq> c) s of [] \<Rightarrow> [] | _ # r \<Rightarrow> split c r)"
proof (cases "dropWhile (\<lambda>x. x \<noteq> c) s")
  case Nil
  show ?thesis
    unfolding split_def by (subst split_pieces_unfold) (simp add: Nil)
next
  case (Cons a r)
  show ?thesis
    unfolding split_def by (subst split_pieces_unfold) (simp add: Cons case_prod_beta)
qed

lemma split_first: "hd (split c s) = takeWhile (\<lambda>x. x \<noteq> c) s"
  by (subst split_unfold) simp

lemma split_second:
  "elem_at (split c s) 1 =
     (if c \<in> set s
      then Some (takeWhile (\<lambda>x. x \<noteq> c) (drop 1 (dropWhile (\<lambda>x. x \<noteq> c) s)))
      else None)"
proof (cases "dropWhile (\<lambda>x. x \<noteq> c) s")
  case Nil
  then have "c \<notin> set s" by auto
  moreover have "split c s = [takeWhile (\<lambda>x. x \<noteq> c) s]"
    by (subst split_unfold) (simp only: Nil list.case)
  ultimately show ?thesis by (simp add: elem_at_def)
next
  case (Cons a r)
  then have "dropWhile (\<lambda>x. x \<noteq> c) s \<noteq> []" by simp
  then have "c \<in> set s" by auto
  moreover have "hd (split c r) = takeWhile (\<lambda>x. x \<noteq> c) r" by (rule split_first)
  moreover have "split c r \<noteq> []" by (subst split_unfold) simp
  moreover have "split c s = takeWhile (\<lambda>x. x \<noteq> c) s # split c r"
    by (subst split_unfold) (simp only: Cons list.case)
  ultimately show ?thesis
    by (simp add: elem_at_def hd_conv_nth Cons)
qed

lemma parseFloat_NaN_iff: "parseFloat s = NaN \<longleftrightarrow> \<not> has_number_prefix s"
  unfolding parseFloat_def has_number_prefix_def Let_def
  by (auto simp: takeWhile_eq_Nil_iff split: prod.splits list.splits)

lemma validateAmount_cases:
  "validateAmount s =
     (if is_blank s then \<lparr>isValid = False, verror = Some ''Amount is required''\<rparr>
      else if \<not> has_number_prefix s then
        \<lparr>isValid = False, verror = Some ''Invalid amount format''\<rparr>
      else if le_zero (parseFloat s) then
        \<lparr>isValid = False, verror = Some ''Amount must be greater than 0''\<rparr>
      else if 18 < length (fraction_text s) then
        \<lparr>isValid = False, verror = Some ''Too many decimal places (max 18)''\<rparr>
      else \<lparr>isValid = True, verror = None\<rparr>)"
proof -
  have blank: "(s = [] \<or> trim s = []) = is_blank s"
    by (auto simp: trim_empty_iff is_blank_def)
  have frac: "elem_at (split CHR ''.'' s) 1 =
      (if CHR ''.'' \<in> set s then Some (fraction_text s) else None)"
    unfolding fraction_text_def by (rule split_second)
  have nodot: "fraction_text s = []" if "CHR ''.'' \<notin> set s"
  proof -
    have e: "dropWhile (\<lambda>x. x \<noteq> CHR ''.'') s = []" using that by auto
    show ?thesis unfolding fraction_text_def e by simp
  qed
  show ?thesis
    unfolding validateAmount_def blank Let_def isNaN_def parseFloat_NaN_iff frac
    by (simp add: nodot)
qed

lemma ge_one_not_le_zero: "1 \<le> m \<Longrightarrow> \<not> le_zero (Num False m)"
  by (simp add: le_zero_def)

lemmas parse_defs =
  parseFloat_def is_ws_def is_digit_def scale10_def parse_exponent_def digits_val_def
  digit_val_def

lemmas shape_defs =
  is_blank_def has_number_prefix_def fraction_text_def is_ws_def is_digit_def

lemma is_hex_lower_char: "is_hex_digit (lower_char c) = is_hex_digit c"
  by (simp add: is_hex_digit_def lower_char_def)

lemma is_hex_upper_char: "is_hex_digit (upper_char c) = is_hex_digit c"
  by (simp add: is_hex_digit_def upper_char_def)

lemma isValidAddress_spec_iff:
  "isValidAddress isAddress_spec t \<longleftrightarrow>
      length t = 42 \<and> take 2 t = ''0x'' \<and> (\<forall>c \<in> set (drop 2 t). is_hex_digit c)"
  by (cases "t = []") (auto simp: isValidAddress_def isAddress_spec_def list_all_iff)

lemma isValidAddress_spec_case:
  assumes "isValidAddress isAddress_spec (''0x'' @ h)"
  shows "isValidAddress isAddress_spec (''0x'' @ toLowerCase h)"
    and "isValidAddress isAddress_spec (''0x'' @ toUpperCase h)"
  using assms
  by (simp_all add: isValidAddress_spec_iff toLowerCase_def toUpperCase_def
      is_hex_lower_char is_hex_upper_char)

lemma takeWhile_neq_all: "c \<notin> set w \<Longrightarrow> takeWhile (\<lambda>x. x \<noteq> c) w = w"
  by (induction w) auto

lemma takeWhile_neq_app: "c \<notin> set w \<Longrightarrow> takeWhile (\<lambda>x. x \<noteq> c) (w @ c # d) = w"
  by (induction w) auto

lemma dropWhile_neq_app: "c \<notin> set w \<Longrightarrow> dropWhile (\<lambda>x. x \<noteq> c) (w @ c # d) = c # d"
  by (induction w) auto

lemma limit_decimals_no_point:
  assumes "CHR ''.'' \<notin> set w"
  shows "limit_decimals w = w"
  unfolding limit_decimals_def Let_def split_first split_second
  using assms by (simp add: takeWhile_neq_all)

lemma limit_decimals_point:
  assumes "CHR ''.'' \<notin> set w" and "CHR ''.'' \<notin> set d" and "d \<noteq> []"
  shows "limit_decimals (w @ CHR ''.'' # d) = w @ CHR ''.'' # take 4 d"
  unfolding limit_decimals_def Let_def split_first split_second
  using assms by (simp add: takeWhile_neq_all takeWhile_neq_app dropWhile_neq_app)

lemma dropWhile_trim: "\<exists>w. dropWhile is_ws s = trim s @ w"
proof -
  let ?t = "dropWhile is_ws s"
  have "trim s @ rev (takeWhile is_ws (rev ?t)) =
      rev (takeWhile is_ws (rev ?t) @ dropWhile is_ws (rev ?t))"
    by (simp only: trim_def rev_append)
  also have "\<dots> = rev (rev ?t)" by (simp only: takeWhile_dropWhile_id)
  also have "\<dots> = ?t" by simp
  finally have "?t = trim s @ rev (takeWhile is_ws (rev ?t))" by (rule sym)
  then show ?thesis ..
qed

lemma parse_sign_append:
  "t \<noteq> [] \<Longrightarrow> snd (parse_sign (t @ w)) = snd (parse_sign t) @ w"
  by (cases t) auto

lemma decimal_number_has_prefix:
  assumes "is_decimal_number s"
  shows "has_number_prefix s"
proof -
  obtain w where w: "dropWhile is_ws s = trim s @ w" using dropWhile_trim by blast
  let ?u = "snd (parse_sign (trim s))"
  from assms have shape:
    "(\<exists>c cs. ?u = c # cs \<and> is_digit c) \<or> (\<exists>d ds. ?u = CHR ''.'' # d # ds \<and> is_digit d)"
  proof (cases "takeWhile is_digit ?u")
    case (Cons c cs)
    then have "?u \<noteq> []" by auto
    then obtain c' cs' where u: "?u = c' # cs'" by (cases ?u) auto
    with Cons have "is_digit c'" by (auto split: if_splits)
    with u show ?thesis by blast
  next
    case Nil
    then have d: "dropWhile is_digit ?u = ?u"
      by (metis append_Nil takeWhile_dropWhile_id)
    from assms Nil d have r: "?u \<noteq> []" "hd ?u = CHR ''.''" "list_all is_digit (tl ?u)" "tl ?u \<noteq> []"
      by (auto simp: is_decimal_number_def Let_def split: if_splits)
    then obtain ds where u: "?u = CHR ''.'' # ds" by (cases ?u) auto
    with r obtain d ds' where "ds = d # ds'" "is_digit d" by (cases ds) auto
    with u show ?thesis by blast
  qed
  then have ne: "trim s \<noteq> []" by (cases "trim s") auto
  have "snd (parse_sign (dropWhile is_ws s)) = ?u @ w"
    unfolding w using ne by (rule parse_sign_append)
  with shape show ?thesis
    by (auto simp: has_number_prefix_def Let_def)
qed

section \<open>The claims about the validators and the balance\<close>

text \<open>
  C6 (against the model of \<open>isAddress\<close> written from the spec). \<open>isValidAddress\<close> accepts
  exactly the strings of 42 characters that are \<open>0x\<close> followed by 40 hexadecimal digits.
  The letter case of the digits does not matter: with a valid address its lower-case and
  its upper-case spelling are valid. Every string of another length and every string with
  a character that is no hexadecimal digit after the prefix is rejected.
\<close>

theorem isValidAddress_format:
  "(isValidAddress isAddress_spec s \<longleftrightarrow>
      length s = 42 \<and> take 2 s = ''0x'' \<and> (\<forall>c \<in> set (drop 2 s). is_hex_digit c)) \<and>
   (isValidAddress isAddress_spec (''0x'' @ h) \<longrightarrow>
      isValidAddress isAddress_spec (''0x'' @ toLowerCase h) \<and>
      isValidAddress isAddress_spec (''0x'' @ toUpperCase h)) \<and>
   (length s \<noteq> 42 \<longrightarrow> \<not> isValidAddress isAddress_spec s) \<and>
   ((\<exists>c \<in> set (drop 2 s). \<not> is_hex_digit c) \<longrightarrow> \<not> isValidAddress isAddress_spec s)"
proof (intro conjI impI)
  show "isValidAddress isAddress_spec s \<longleftrightarrow>
      length s = 42 \<and> take 2 s = ''0x'' \<and> (\<forall>c \<in> set (drop 2 s). is_hex_digit c)"
    by (rule isValidAddress_spec_iff)
  show "isValidAddress isAddress_spec (''0x'' @ toLowerCase h)"
    if "isValidAddress isAddress_spec (''0x'' @ h)"
    using that by (rule isValidAddress_spec_case)
  show "isValidAddress isAddress_spec (''0x'' @ toUpperCase h)"
    if "isValidAddress isAddress_spec (''0x'' @ h)"
    using that by (rule isValidAddress_spec_case)
  show "\<not> isValidAddress isAddress_spec s" if "length s \<noteq> 42"
    using that by (simp add: isValidAddress_spec_iff)
  show "\<not> isValidAddress isAddress_spec s" if "\<exists>c \<in> set (drop 2 s). \<not> is_hex_digit c"
    using that by (auto simp: isValidAddress_spec_iff)
qed

theorem isValidAddress_format_witness:
  "isValidAddress isAddress_spec (''0x'' @ ''52908400098527886E0F7030069857D2E4169EE7'') \<and>
   isValidAddress isAddress_spec (''0x'' @ toLowerCase ''52908400098527886E0F7030069857D2E4169EE7'') \<and>
   isValidAddress isAddress_spec (''0x'' @ toUpperCase ''52908400098527886E0F7030069857D2E4169EE7'') \<and>
   length ''0x5290'' \<noteq> (42::nat) \<and> \<not> isValidAddress isAddress_spec ''0x5290'' \<and>
   (\<exists>c \<in> set (drop 2 ''0x5290840009852788zz0F7030069857D2E4169EE7''). \<not> is_hex_digit c) \<and>
   \<not> isValidAddress isAddress_spec ''0x5290840009852788zz0F7030069857D2E4169EE7''"
proof -
  have a: "isValidAddress isAddress_spec (''0x'' @ ''52908400098527886E0F7030069857D2E4169EE7'')"
    by (simp add: isValidAddress_def isAddress_spec_def is_hex_digit_def)
  have b: "length ''0x5290'' \<noteq> (42::nat)" by simp
  have c: "\<exists>c \<in> set (drop 2 ''0x5290840009852788zz0F7030069857D2E4169EE7''). \<not> is_hex_digit c"
    by (simp add: is_hex_digit_def)
  note T1 = isValidAddress_format [of "''0x5290''" "''52908400098527886E0F7030069857D2E4169EE7''"]
  note T2 = isValidAddress_format [of "''0x5290840009852788zz0F7030069857D2E4169EE7''" "[]"]
  from T1 a have l: "isValidAddress isAddress_spec (''0x'' @ toLowerCase ''52908400098527886E0F7030069857D2E4169EE7'') \<and>
   isValidAddress isAddress_spec (''0x'' @ toUpperCase ''52908400098527886E0F7030069857D2E4169EE7'')"
    by (elim conjE) (erule (1) mp)
  from T1 b have s: "\<not> isValidAddress isAddress_spec ''0x5290''"
    by (elim conjE) (erule (1) mp)
  from T2 c have z: "\<not> isValidAddress isAddress_spec ''0x5290840009852788zz0F7030069857D2E4169EE7''"
    by (elim conjE) (erule (1) mp)
  from a l b s c z show ?thesis by (intro conjI) (erule conjunct1 conjunct2 | assumption)+
qed

text \<open>
  What \<open>validateAmount\<close> does. It answers with the first of these that applies:
  "Amount is required" for an empty or blank string; "Invalid amount format" for a string
  that does not start, after white space and a sign, with a number (\<open>parseFloat\<close> reads the
  longest numeric prefix and ignores what follows it); "Amount must be greater than 0" when
  the number read is at most 0; "Too many decimal places (max 18)" when more than 18
  characters stand between the first point and the next; valid otherwise. An amount with
  18 fractional digits is valid and one with 19 is not; \<open>0\<close>, \<open>-1\<close>, the empty string and
  \<open>abc\<close> are invalid; the four reasons are pairwise distinct. A string that is a decimal
  number is never answered with "Invalid amount format".
\<close>

lemma validateAmount_reasons:
  "validateAmount s =
     (if is_blank s then \<lparr>isValid = False, verror = Some ''Amount is required''\<rparr>
      else if \<not> has_number_prefix s then
        \<lparr>isValid = False, verror = Some ''Invalid amount format''\<rparr>
      else if le_zero (parseFloat s) then
        \<lparr>isValid = False, verror = Some ''Amount must be greater than 0''\<rparr>
      else if 18 < length (fraction_text s) then
        \<lparr>isValid = False, verror = Some ''Too many decimal places (max 18)''\<rparr>
      else \<lparr>isValid = True, verror = None\<rparr>) \<and>
   validateAmount ''1.123456789012345678'' = \<lparr>isValid = True, verror = None\<rparr> \<and>
   validateAmount ''1.1234567890123456789'' =
     \<lparr>isValid = False, verror = Some ''Too many decimal places (max 18)''\<rparr> \<and>
   validateAmount ''0'' = \<lparr>isValid = False, verror = Some ''Amount must be greater than 0''\<rparr> \<and>
   validateAmount ''-1'' = \<lparr>isValid = False, verror = Some ''Amount must be greater than 0''\<rparr> \<and>
   validateAmount [] = \<lparr>isValid = False, verror = Some ''Amount is required''\<rparr> \<and>
   validateAmount ''abc'' = \<lparr>isValid = False, verror = Some ''Invalid amount format''\<rparr> \<and>
   distinct [''Amount is required'', ''Invalid amount format'',
     ''Amount must be greater than 0'', ''Too many decimal places (max 18)''] \<and>
   (is_decimal_number s \<longrightarrow> verror (validateAmount s) \<noteq> Some ''Invalid amount format'')"
proof -
  have p18: "parseFloat ''1.123456789012345678'' = Num False (1123456789012345678 / 10 ^ 18)"
    by (simp add: parse_defs)
  have "\<not> le_zero (parseFloat ''1.123456789012345678'')"
    unfolding p18 by (rule ge_one_not_le_zero) simp
  then have e18: "validateAmount ''1.123456789012345678'' = \<lparr>isValid = True, verror = None\<rparr>"
    by (simp add: validateAmount_cases shape_defs)
  have p19: "parseFloat ''1.1234567890123456789'' = Num False (11234567890123456789 / 10 ^ 19)"
    by (simp add: parse_defs)
  have "\<not> le_zero (parseFloat ''1.1234567890123456789'')"
    unfolding p19 by (rule ge_one_not_le_zero) simp
  then have e19: "validateAmount ''1.1234567890123456789'' =
      \<lparr>isValid = False, verror = Some ''Too many decimal places (max 18)''\<rparr>"
    by (simp add: validateAmount_cases shape_defs)
  have e0: "validateAmount ''0'' =
      \<lparr>isValid = False, verror = Some ''Amount must be greater than 0''\<rparr>"
    by (simp add: validateAmount_cases shape_defs parse_defs le_zero_def)
  have em1: "validateAmount ''-1'' =
      \<lparr>isValid = False, verror = Some ''Amount must be greater than 0''\<rparr>"
    by (simp add: validateAmount_cases shape_defs parse_defs le_zero_def)
  have ee: "validateAmount [] = \<lparr>isValid = False, verror = Some ''Amount is required''\<rparr>"
    by (simp add: validateAmount_cases shape_defs)
  have ea: "validateAmount ''abc'' = \<lparr>isValid = False, verror = Some ''Invalid amount format''\<rparr>"
    by (simp add: validateAmount_cases shape_defs)
  have d: "distinct [''Amount is required'', ''Invalid amount format'',
     ''Amount must be greater than 0'', ''Too many decimal places (max 18)'']"
    by simp
  have n: "verror (validateAmount s) \<noteq> Some ''Invalid amount format''" if "is_decimal_number s"
    using decimal_number_has_prefix [OF that] by (simp add: validateAmount_cases)
  from validateAmount_cases [of s] e18 e19 e0 em1 ee ea d n show ?thesis
    by (intro conjI impI)
qed

lemma validateAmount_reasons_decimal:
  "is_decimal_number ''1.5'' \<and> verror (validateAmount ''1.5'') \<noteq> Some ''Invalid amount format''"
proof -
  have d: "is_decimal_number ''1.5''"
    by (simp add: is_decimal_number_def trim_def is_ws_def is_digit_def)
  from validateAmount_reasons [of "''1.5''"] d show ?thesis by blast
qed

lemma not_decimal_1abc: "\<not> is_decimal_number ''1abc''"
  by (simp add: is_decimal_number_def trim_def shape_defs)

text \<open>
  C7. The claim fails on the code. \<open>validateAmount\<close> means to reject what is not a
  number: it tests \<open>isNaN(parseFloat(amount))\<close> and answers "Invalid amount format". But
  \<open>parseFloat\<close> reads the longest numeric prefix and ignores what follows it: \<open>1abc\<close> is
  not a decimal number, and \<open>validateAmount\<close> answers that it is valid.
\<close>

theorem validateAmount_accepts_trailing_text:
  "validateAmount ''1abc'' = \<lparr>isValid = True, verror = None\<rparr> \<and>
   verror (validateAmount ''1abc'') \<noteq> Some ''Invalid amount format''"
  by (simp add: validateAmount_cases shape_defs parse_defs le_zero_def)

text \<open>
  C8. \<open>getBalance\<close> returns the formatted balance cut after four fractional digits:
  whatever the formatter, a balance the wallet reports is formatted and then passed
  through \<open>limit_decimals\<close>; a formatted value without a point is returned unchanged; of
  a value with digits after the point the text before the point, the point and the first
  four of the digits are kept, the rest dropped without rounding. So \<open>1.2\<close> stays \<open>1.2\<close>
  and \<open>1.23456789\<close> becomes \<open>1.2345\<close>.
\<close>

theorem getBalance_truncates:
  "(query account = Inr b \<longrightarrow>
      getBalance formatEther (Some query) account = Inr (limit_decimals (formatEther b))) \<and>
   (CHR ''.'' \<notin> set w \<longrightarrow> limit_decimals w = w) \<and>
   (CHR ''.'' \<notin> set w \<and> CHR ''.'' \<notin> set d \<and> d \<noteq> [] \<longrightarrow>
      limit_decimals (w @ ''.'' @ d) = w @ ''.'' @ take 4 d) \<and>
   limit_decimals ''1.2'' = ''1.2'' \<and>
   limit_decimals ''1.23456789'' = ''1.2345''"
proof -
  have "limit_decimals ''1.2'' = ''1.2''"
    by (simp add: limit_decimals_def split_def elem_at_def)
  moreover have "limit_decimals ''1.23456789'' = ''1.2345''"
    by (simp add: limit_decimals_def split_def elem_at_def)
  ultimately show ?thesis
    using limit_decimals_no_point [of w] limit_decimals_point [of w d]
    by (simp add: getBalance_def)
qed

theorem getBalance_truncates_witness:
  "getBalance (\<lambda>b. ''1.23456789'') (Some (\<lambda>a. Inr 1234567890000000000)) ''0xabc'' =
     Inr ''1.2345'' \<and>
   limit_decimals ''12'' = ''12'' \<and>
   limit_decimals (''1'' @ ''.'' @ ''23456789'') = ''1'' @ ''.'' @ take 4 ''23456789''"
  using getBalance_truncates [of "\<lambda>a. Inr 1234567890000000000" "''0xabc''"
      1234567890000000000 "\<lambda>b. ''1.23456789''" "''12''" "''23456789''"]
    getBalance_truncates [of "\<lambda>a. Inr 1234567890000000000" "''0xabc''"
      1234567890000000000 "\<lambda>b. ''1.23456789''" "''1''" "''23456789''"]
  by simp

section \<open>Properties of the transfer form\<close>

lemma handleSubmit_invalid:
  assumes "\<not> snd (validateForm isAddress (formData s))"
  shows "handleSubmit isAddress parseEther w cb s =
           (s\<lparr>formErrors := fst (validateForm isAddress (formData s))\<rparr>, [])"
  using assms by (simp add: handleSubmit_def case_prod_beta)

lemma validateForm_false:
  assumes "\<not> isValidAddress isAddress (recipient fd) \<or> \<not> isValid (validateAmount (amount fd))"
  shows "\<not> snd (validateForm isAddress fd)"
  using assms by (auto simp: validateForm_def validateRecipient_def Let_def)

lemma sendTransaction_invalid:
  assumes "\<not> isValidAddress isAddress r \<or> \<not> isValid (validateAmount a)"
  shows "snd (sendTransaction isAddress parseEther w r a) = []"
    and "isl (fst (sendTransaction isAddress parseEther w r a))"
  using assms by (auto simp: sendTransaction_def Let_def)

lemma validateAmount_2: "validateAmount ''2'' = \<lparr>isValid = True, verror = None\<rparr>"
  by (simp add: validateAmount_cases shape_defs parse_defs le_zero_def)

lemmas example_defs =
  form_ok_def form_bad_def wallet_confirms_def wallet_rejects_def
  user_rejected_def starts_0x_def whole_ether_def INITIAL_TRANSACTION_STATE_def

lemmas submit_defs =
  handleSubmit_def validateForm_def validateRecipient_def isValidAddress_def trim_def
  is_ws_def sendTransaction_def submit_failed_def Let_def

lemma run_confirms:
  "handleSubmit starts_0x whole_ether wallet_confirms True form_ok =
     (form_ok\<lparr>formData := \<lparr>recipient = [], amount = []\<rparr>,
        txState := \<lparr>status = confirmed, hash = Some ''0xfeed'', txError = None\<rparr>\<rparr>,
      [SetTxState \<lparr>status = sending, hash = None, txError = None\<rparr>,
       GetSigner, SignerSendTransaction ''0xb0b'' 2000000000000000000,
       SetTxState \<lparr>status = pending, hash = Some ''0xfeed'', txError = None\<rparr>,
       AddToast ''Transaction submitted! Waiting for confirmation...'' T_info,
       WaitForReceipt ''0xfeed'',
       SetTxState \<lparr>status = confirmed, hash = Some ''0xfeed'', txError = None\<rparr>,
       AddToast ''Transaction confirmed successfully!'' T_success,
       OnTransactionComplete])"
  by (simp add: submit_defs example_defs validateAmount_2 digits_val_def digit_val_def)

lemma parse_call_exception:
  "parseTransactionError call_exception = ''Failed to estimate gas. The transaction may fail.''"
  by (simp add: parseTransactionError_def is_user_rejection_def code_of_def message_includes_def
      message_of_def call_exception_def USER_REJECTED_def)

lemma parse_fee_refused:
  "parseTransactionError fee_refused = ''Failed to estimate gas. The transaction may fail.''"
  by (simp add: parseTransactionError_def is_user_rejection_def code_of_def message_includes_def
      message_of_def fee_refused_def USER_REJECTED_def)

lemma run_reverts:
  "handleSubmit starts_0x whole_ether wallet_reverts True form_ok =
     (form_ok\<lparr>txState := \<lparr>status = failed, hash = None,
                              txError = Some ''Failed to estimate gas. The transaction may fail.''\<rparr>\<rparr>,
      [SetTxState \<lparr>status = sending, hash = None, txError = None\<rparr>,
       GetSigner, SignerSendTransaction ''0xb0b'' 2000000000000000000,
       SetTxState \<lparr>status = pending, hash = Some ''0xfeed'', txError = None\<rparr>,
       AddToast ''Transaction submitted! Waiting for confirmation...'' T_info,
       WaitForReceipt ''0xfeed'',
       SetTxState \<lparr>status = failed, hash = None,
                   txError = Some ''Failed to estimate gas. The transaction may fail.''\<rparr>,
       AddToast ''Failed to estimate gas. The transaction may fail.'' T_error])"
  by (simp add: handleSubmit_def validateForm_def validateRecipient_def isValidAddress_def
      trim_def is_ws_def sendTransaction_def submit_failed_def form_ok_def wallet_reverts_def
      starts_0x_def whole_ether_def INITIAL_TRANSACTION_STATE_def validateAmount_2
      digits_val_def digit_val_def parse_call_exception Let_def)

lemma run_refuses:
  "handleSubmit starts_0x whole_ether wallet_refuses True form_ok =
     (form_ok\<lparr>txState := \<lparr>status = failed, hash = None,
                              txError = Some ''Failed to estimate gas. The transaction may fail.''\<rparr>\<rparr>,
      [SetTxState \<lparr>status = sending, hash = None, txError = None\<rparr>,
       GetSigner, SignerSendTransaction ''0xb0b'' 2000000000000000000,
       SetTxState \<lparr>status = failed, hash = None,
                   txError = Some ''Failed to estimate gas. The transaction may fail.''\<rparr>,
       AddToast ''Failed to estimate gas. The transaction may fail.'' T_error])"
  by (simp add: handleSubmit_def validateForm_def validateRecipient_def isValidAddress_def
      trim_def is_ws_def sendTransaction_def submit_failed_def form_ok_def wallet_refuses_def
      starts_0x_def whole_ether_def INITIAL_TRANSACTION_STATE_def validateAmount_2
      digits_val_def digit_val_def parse_fee_refused Let_def)

lemma parse_rejected: "parseTransactionError user_rejected = ''Transaction cancelled by user.''"
  by (simp add: parseTransactionError_def is_user_rejection_def code_of_def user_rejected_def USER_REJECTED_def)

lemma run_rejects:
  "handleSubmit starts_0x whole_ether wallet_rejects True form_ok =
     (form_ok\<lparr>txState := \<lparr>status = failed, hash = None,
                              txError = Some ''Transaction cancelled by user.''\<rparr>\<rparr>,
      [SetTxState \<lparr>status = sending, hash = None, txError = None\<rparr>,
       GetSigner, SignerSendTransaction ''0xb0b'' 2000000000000000000,
       SetTxState \<lparr>status = failed, hash = None,
                   txError = Some ''Transaction cancelled by user.''\<rparr>,
       AddToast ''Transaction cancelled by user.'' T_error])"
  by (simp add: handleSubmit_def validateForm_def validateRecipient_def isValidAddress_def trim_def
  is_ws_def sendTransaction_def submit_failed_def form_ok_def wallet_rejects_def starts_0x_def whole_ether_def INITIAL_TRANSACTION_STATE_def validateAmount_2 digits_val_def digit_val_def parse_rejected Let_def)

text \<open>How a transfer that the wallet accepted ends when it is not confirmed. A receipt
  that does not report success leads to the branch that keeps the hash and stores
  "Transaction failed on chain". A \<open>tx.wait()\<close> that throws leads to the \<open>catch\<close> block,
  as a \<open>sendTransaction\<close> that throws does: the hash is cleared and the error is the
  classification of the thrown value.\<close>

lemma handleSubmit_sent:
  assumes "snd (validateForm isAddress (formData s))"
      and "fst (sendTransaction isAddress parseEther w (recipient (formData s)) (amount (formData s))) = Inr h"
      and "tx_wait w h = Inr receipt" and "receipt \<noteq> Some (Some 1)"
  shows "handleSubmit isAddress parseEther w cb s =
     (s\<lparr>formErrors := fst (validateForm isAddress (formData s)),
        txState := \<lparr>status = failed, hash = Some h, txError = Some ''Transaction failed on chain''\<rparr>\<rparr>,
      SetTxState \<lparr>status = sending, hash = None, txError = None\<rparr> #
      snd (sendTransaction isAddress parseEther w (recipient (formData s)) (amount (formData s))) @
      [SetTxState \<lparr>status = pending, hash = Some h, txError = None\<rparr>,
       AddToast ''Transaction submitted! Waiting for confirmation...'' T_info,
       WaitForReceipt h,
       SetTxState \<lparr>status = failed, hash = Some h, txError = Some ''Transaction failed on chain''\<rparr>,
       AddToast ''Transaction failed on chain'' T_error])"
  using assms by (simp add: handleSubmit_def case_prod_beta Let_def)

lemma handleSubmit_wait_rejects:
  assumes "snd (validateForm isAddress (formData s))"
      and "fst (sendTransaction isAddress parseEther w (recipient (formData s)) (amount (formData s))) = Inr h"
      and "tx_wait w h = Inl e"
  shows "txState (fst (handleSubmit isAddress parseEther w cb s)) =
     \<lparr>status = failed, hash = None, txError = Some (parseTransactionError e)\<rparr>"
  using assms by (simp add: handleSubmit_def submit_failed_def case_prod_beta Let_def)

lemma handleSubmit_rejected:
  assumes "snd (validateForm isAddress (formData s))"
      and "fst (sendTransaction isAddress parseEther w (recipient (formData s)) (amount (formData s))) = Inl e"
  shows "txState (fst (handleSubmit isAddress parseEther w cb s)) =
     \<lparr>status = failed, hash = None, txError = Some (parseTransactionError e)\<rparr>"
  using assms by (simp add: handleSubmit_def submit_failed_def case_prod_beta Let_def)

lemma ok_form: "snd (validateForm starts_0x (formData form_ok))"
  by (simp add: validateForm_def validateRecipient_def isValidAddress_def trim_def is_ws_def
      form_ok_def starts_0x_def validateAmount_2)

section \<open>The claims about the transfer\<close>

text \<open>
  C3. When the recipient fails the address validation or the amount fails the amount
  validation, \<open>handleSubmit\<close> makes no request at all, so the send operation of the wallet
  is never invoked, and leaves the transfer state as it was: a transfer that was idle
  remains idle. \<open>sendTransaction\<close> itself, given such inputs, throws before any request.
\<close>

theorem invalid_form_never_sends:
  assumes "\<not> isValidAddress isAddress (recipient (formData s)) \<or>
           \<not> isValid (validateAmount (amount (formData s)))"
  shows "snd (handleSubmit isAddress parseEther w cb s) = [] \<and>
         txState (fst (handleSubmit isAddress parseEther w cb s)) = txState s \<and>
         (txState s = INITIAL_TRANSACTION_STATE \<longrightarrow>
            status (txState (fst (handleSubmit isAddress parseEther w cb s))) = idle) \<and>
         snd (sendTransaction isAddress parseEther w (recipient (formData s))
                (amount (formData s))) = [] \<and>
         isl (fst (sendTransaction isAddress parseEther w (recipient (formData s))
                (amount (formData s))))"
proof -
  have "\<not> snd (validateForm isAddress (formData s))"
    using assms by (rule validateForm_false)
  then have "handleSubmit isAddress parseEther w cb s =
      (s\<lparr>formErrors := fst (validateForm isAddress (formData s))\<rparr>, [])"
    by (rule handleSubmit_invalid)
  then show ?thesis
    using sendTransaction_invalid [OF assms]
    by (simp add: INITIAL_TRANSACTION_STATE_def)
qed

theorem invalid_form_never_sends_witness:
  "\<not> isValidAddress starts_0x (recipient (formData form_bad)) \<and>
   snd (handleSubmit starts_0x whole_ether wallet_confirms True form_bad) = [] \<and>
   txState (fst (handleSubmit starts_0x whole_ether wallet_confirms True form_bad)) =
     INITIAL_TRANSACTION_STATE \<and>
   status (txState (fst (handleSubmit starts_0x whole_ether wallet_confirms True form_bad))) = idle"
proof -
  have h: "\<not> isValidAddress starts_0x (recipient (formData form_bad))"
    by (simp add: isValidAddress_def starts_0x_def form_bad_def)
  have i: "txState form_bad = INITIAL_TRANSACTION_STATE" by (simp add: form_bad_def)
  from invalid_form_never_sends [OF disjI1 [OF h], of whole_ether wallet_confirms True] h i
  show ?thesis by (simp add: INITIAL_TRANSACTION_STATE_def)
qed

text \<open>
  C4. A submitted transfer (the form passed validation, the callback is given) ends
  confirmed or failed; it passes through the confirmed state exactly when it ends there;
  \<open>onTransactionComplete\<close> is called once if it reaches the confirmed state and not at all
  otherwise, in particular never when it ends failed.
\<close>

theorem completion_fires_once:
  assumes "snd (validateForm isAddress (formData s))"
  shows "(status (txState (fst (handleSubmit isAddress parseEther w True s))) = confirmed \<or>
          status (txState (fst (handleSubmit isAddress parseEther w True s))) = failed) \<and>
         reaches confirmed (snd (handleSubmit isAddress parseEther w True s)) =
           (status (txState (fst (handleSubmit isAddress parseEther w True s))) = confirmed) \<and>
         count_list (snd (handleSubmit isAddress parseEther w True s)) OnTransactionComplete =
           (if reaches confirmed (snd (handleSubmit isAddress parseEther w True s)) then 1 else 0) \<and>
         (status (txState (fst (handleSubmit isAddress parseEther w True s))) = failed \<longrightarrow>
            count_list (snd (handleSubmit isAddress parseEther w True s)) OnTransactionComplete = 0)"
proof -
  have fx: "count_list (snd (sendTransaction isAddress parseEther w r a)) OnTransactionComplete = 0"
      "\<not> reaches confirmed (snd (sendTransaction isAddress parseEther w r a))" for r a
    by (auto simp: sendTransaction_def Let_def reaches_def split: option.splits sum.splits)
  show ?thesis
    using assms fx
    by (auto simp: handleSubmit_def submit_failed_def case_prod_beta Let_def reaches_def
        split: sum.splits)
qed

theorem completion_fires_once_witness:
  "snd (validateForm starts_0x (formData form_ok)) \<and>
   status (txState (fst (handleSubmit starts_0x whole_ether wallet_confirms True form_ok))) = confirmed \<and>
   count_list (snd (handleSubmit starts_0x whole_ether wallet_confirms True form_ok))
     OnTransactionComplete = 1 \<and>
   status (txState (fst (handleSubmit starts_0x whole_ether wallet_reverts True form_ok))) = failed \<and>
   count_list (snd (handleSubmit starts_0x whole_ether wallet_reverts True form_ok))
     OnTransactionComplete = 0"
proof -
  have c: "status (txState (fst (handleSubmit starts_0x whole_ether wallet_confirms True form_ok))) = confirmed"
    by (simp add: run_confirms)
  have f: "status (txState (fst (handleSubmit starts_0x whole_ether wallet_reverts True form_ok))) = failed"
    by (simp add: run_reverts)
  from completion_fires_once [OF ok_form, of whole_ether wallet_confirms]
    completion_fires_once [OF ok_form, of whole_ether wallet_reverts] ok_form c f
  show ?thesis by simp
qed

text \<open>
  C5. The claim fails on the code. The branch of \<open>handleSubmit\<close> that stores "Transaction
  failed on chain" and keeps the hash is taken when \<open>tx.wait()\<close> returns a receipt that
  does not report success. For a transaction that was mined and reverted, \<open>tx.wait()\<close> of
  ethers 6 does not return: it rejects, and the \<open>catch\<close> block runs. The transfer below was
  accepted for broadcast, passed through the pending state with its hash, and ends failed
  with the hash cleared and the error "Failed to estimate gas. The transaction may fail.",
  in the very state that a submission the wallet refuses over its fee ends in; a
  submission the user rejects ends in a state of the same shape.
\<close>

theorem onchain_failure_runs_catch:
  "handleSubmit starts_0x whole_ether wallet_reverts True form_ok =
     (form_ok\<lparr>txState := \<lparr>status = failed, hash = None,
                              txError = Some ''Failed to estimate gas. The transaction may fail.''\<rparr>\<rparr>,
      [SetTxState \<lparr>status = sending, hash = None, txError = None\<rparr>,
       GetSigner, SignerSendTransaction ''0xb0b'' 2000000000000000000,
       SetTxState \<lparr>status = pending, hash = Some ''0xfeed'', txError = None\<rparr>,
       AddToast ''Transaction submitted! Waiting for confirmation...'' T_info,
       WaitForReceipt ''0xfeed'',
       SetTxState \<lparr>status = failed, hash = None,
                   txError = Some ''Failed to estimate gas. The transaction may fail.''\<rparr>,
       AddToast ''Failed to estimate gas. The transaction may fail.'' T_error]) \<and>
   snd (handleSubmit starts_0x whole_ether wallet_refuses True form_ok) =
     [SetTxState \<lparr>status = sending, hash = None, txError = None\<rparr>,
      GetSigner, SignerSendTransaction ''0xb0b'' 2000000000000000000,
      SetTxState \<lparr>status = failed, hash = None,
                  txError = Some ''Failed to estimate gas. The transaction may fail.''\<rparr>,
      AddToast ''Failed to estimate gas. The transaction may fail.'' T_error] \<and>
   txState (fst (handleSubmit starts_0x whole_ether wallet_refuses True form_ok)) =
     txState (fst (handleSubmit starts_0x whole_ether wallet_reverts True form_ok)) \<and>
   txState (fst (handleSubmit starts_0x whole_ether wallet_rejects True form_ok)) =
     \<lparr>status = failed, hash = None, txError = Some ''Transaction cancelled by user.''\<rparr>"
  by (simp add: run_reverts run_refuses run_rejects)

section \<open>Properties of the dashboard\<close>

lemma removeListeners_registrations: "removeListeners k (registrations k) = []"
  by (simp add: removeListeners_def registrations_def ethereum_removeListener_def)

lemma setup_registrations:
  "setupWalletListeners True k [] = (registrations k, removeListeners k)"
  by (simp add: setupWalletListeners_def registrations_def ethereum_on_def)

lemma dispatch_registered:
  "listeners d = registrations k \<Longrightarrow> dispatch we d = handle_wallet_event we d"
  by (cases we) (simp_all add: dispatch_def registrations_def)

lemma dispatch_none: "listeners d = [] \<Longrightarrow> dispatch we d = d"
  by (simp add: dispatch_def)

lemmas dashboard_defs =
  updateWalletState_def emit_def addToast_def await_def refreshBalance_def
  refreshBalance_resume_def connect_failed_def handleConnect_def handleConnect_resume_def
  handleDisconnect_def handleAccountsChanged_def handleChainChanged_def
  onTransactionComplete_def checkExistingConnection_resume_def settle_def

text \<open>The invariants hold after the mount and are kept by every step: by the handlers,
  which leave the listeners alone, and by a render, which runs the listener effect.\<close>

lemma same_wiring_refl: "same_wiring d d"
  by (simp add: same_wiring_def)

lemma same_wiring_trans: "same_wiring d d' \<Longrightarrow> same_wiring d' d'' \<Longrightarrow> same_wiring d d''"
  by (simp add: same_wiring_def)

lemma wallet_event_wiring: "same_wiring d (handle_wallet_event we d)"
  by (cases we) (auto simp: same_wiring_def dashboard_defs Let_def split: list.splits option.splits)

lemma settle_wiring: "same_wiring d (settle i oc d)"
  by (auto simp: same_wiring_def dashboard_defs Let_def
      split: list.splits option.splits sum.splits pending_op.splits outcome.splits)

lemma connect_wiring: "same_wiring d (handleConnect b d)"
  by (auto simp: same_wiring_def dashboard_defs Let_def)

lemma foldl_wiring: "same_wiring d (foldl (\<lambda>d' l. handle_wallet_event we d') d ls)"
proof (induction ls arbitrary: d)
  case Nil
  show ?case by (simp add: same_wiring_refl)
next
  case (Cons l ls)
  have "same_wiring d (handle_wallet_event we d)" by (rule wallet_event_wiring)
  moreover have "same_wiring (handle_wallet_event we d)
      (foldl (\<lambda>d' l. handle_wallet_event we d') (handle_wallet_event we d) ls)"
    by (rule Cons.IH)
  ultimately show ?case by (simp add: same_wiring_trans)
qed

lemma handler_wiring: "ev \<noteq> Render \<Longrightarrow> same_wiring d (step b d ev)"
proof (cases ev)
  case ClickConnect
  then show ?thesis by (simp add: connect_wiring)
next
  case ClickDisconnect
  then show ?thesis by (simp add: same_wiring_def dashboard_defs)
next
  case (Emit we)
  then show ?thesis by (simp add: dispatch_def foldl_wiring)
next
  case (Settle i oc)
  then show ?thesis by (simp add: settle_wiring)
next
  case (TransactionCompleted shown)
  then show ?thesis
    by (auto simp: same_wiring_def dashboard_defs split: option.splits list.splits)
next
  case Render
  assume "ev \<noteq> Render"
  with Render show ?thesis by simp
qed

lemma flags_connect: "flags_ok b d \<Longrightarrow> flags_ok b (handleConnect b d)"
  by (auto simp: flags_ok_def dashboard_defs Let_def)

lemma flags_disconnect: "flags_ok b d \<Longrightarrow> flags_ok b (handleDisconnect d)"
  by (auto simp: flags_ok_def dashboard_defs INITIAL_WALLET_STATE_def)

lemma flags_wallet_event:
  "flags_ok b d \<Longrightarrow> isConnected (rendered d) \<Longrightarrow> flags_ok b (handle_wallet_event we d)"
  by (cases we)
    (auto simp: flags_ok_def dashboard_defs INITIAL_WALLET_STATE_def Let_def
      split: list.splits option.splits)

lemma flags_complete: "flags_ok b d \<Longrightarrow> flags_ok b (onTransactionComplete shown d)"
  by (auto simp: flags_ok_def dashboard_defs split: list.splits option.splits)

lemma flags_shrink:
  "flags_ok b d \<Longrightarrow> set xs \<subseteq> set (in_flight d) \<Longrightarrow> flags_ok b (d\<lparr>in_flight := xs\<rparr>)"
  by (auto simp: flags_ok_def)

lemma flags_connect_resume:
  "flags_ok b d \<Longrightarrow> isMetaMaskInstalled b \<Longrightarrow> flags_ok b (handleConnect_resume cw ch bl d)"
  by (auto simp: flags_ok_def dashboard_defs Let_def split: sum.splits)

lemma flags_check_resume:
  "flags_ok b d \<Longrightarrow> isMetaMaskInstalled b \<Longrightarrow>
     flags_ok b (checkExistingConnection_resume accounts ch bl d)"
  by (auto simp: flags_ok_def dashboard_defs Let_def split: sum.splits list.splits)

lemma flags_refresh_resume: "flags_ok b d \<Longrightarrow> flags_ok b (refreshBalance_resume r t d)"
  by (auto simp: flags_ok_def dashboard_defs Let_def split: sum.splits option.splits)

lemma flags_settle:
  assumes "flags_ok b d"
  shows "flags_ok b (settle i oc d)"
proof (cases "i < length (in_flight d)")
  case False
  then show ?thesis using assms by (simp add: settle_def)
next
  case True
  let ?d' = "d\<lparr>in_flight := take i (in_flight d) @ drop (Suc i) (in_flight d)\<rparr>"
  have "set (take i (in_flight d) @ drop (Suc i) (in_flight d)) \<subseteq> set (in_flight d)"
    by (auto dest: in_set_takeD in_set_dropD)
  with assms have ok': "flags_ok b ?d'" by (rule flags_shrink)
  have mem: "in_flight d ! i \<in> set (in_flight d)" using True by simp
  show ?thesis
  proof (cases "in_flight d ! i")
    case PConnect
    with mem assms have "isMetaMaskInstalled b" by (auto simp: flags_ok_def)
    with ok' PConnect True assms show ?thesis
      by (cases oc) (simp_all add: settle_def flags_connect_resume)
  next
    case PCheck
    with mem assms have "isMetaMaskInstalled b" by (auto simp: flags_ok_def)
    with ok' PCheck True assms show ?thesis
      by (cases oc) (simp_all add: settle_def flags_check_resume)
  next
    case (PRefresh a t)
    with ok' True assms show ?thesis
      by (cases oc) (simp_all add: settle_def flags_refresh_resume)
  qed
qed

lemma dispatch_rendered:
  assumes "listeners_ok d"
  shows "dispatch we d = (if isConnected (rendered d) then handle_wallet_event we d else d)"
  using assms
  by (auto simp: listeners_ok_def dispatch_registered dispatch_none split: if_splits)

lemma flags_render: "flags_ok b d \<Longrightarrow> flags_ok b (render b d)"
  by (auto simp: render_def run_listener_effect_def flags_ok_def Let_def case_prod_beta
      split: option.splits)

lemma flags_step:
  assumes "dashboard_ok b d"
  shows "flags_ok b (step b d ev)"
proof -
  from assms have f: "flags_ok b d" and l: "listeners_ok d"
    by (simp_all add: dashboard_ok_def)
  show ?thesis
  proof (cases ev)
    case ClickConnect
    with f show ?thesis by (simp add: flags_connect)
  next
    case ClickDisconnect
    with f show ?thesis by (simp add: flags_disconnect)
  next
    case (Emit we)
    with f l show ?thesis by (simp add: dispatch_rendered flags_wallet_event)
  next
    case (Settle i oc)
    with f show ?thesis by (simp add: flags_settle)
  next
    case (TransactionCompleted shown)
    with f show ?thesis by (simp add: flags_complete)
  next
    case Render
    with f show ?thesis by (simp add: flags_render)
  qed
qed

lemma listeners_handler:
  assumes "listeners_ok d" and "same_wiring d d'"
  shows "listeners_ok d'"
  using assms by (simp add: listeners_ok_def same_wiring_def)

lemma listeners_render:
  assumes old: "dashboard_ok b d"
  shows "listeners_ok (render b d)"
proof -
  define new where "new = d\<lparr>rendered := walletState d, rendered_available := isMetaMaskAvailable d\<rparr>"
  from old have lo: "listeners_ok d" and f: "flags_ok b d" by (simp_all add: dashboard_ok_def)
  show ?thesis
  proof (cases "effect_deps new = effect_deps d")
    case True
    then have "isConnected (rendered new) = isConnected (rendered d)"
      by (simp add: effect_deps_def)
    with lo True show ?thesis
      by (simp add: render_def new_def [symmetric] Let_def) (simp add: listeners_ok_def new_def)
  next
    case False
    define d1 where "d1 = (case cleanup new of None \<Rightarrow> new
        | Some c \<Rightarrow> new\<lparr>listeners := c (listeners new), cleanup := None\<rparr>)"
    have clean: "listeners d1 = [] \<and> cleanup d1 = None \<and> rendered d1 = walletState d \<and>
        rendered_available d1 = isMetaMaskAvailable d"
      using lo
      by (auto simp: d1_def new_def listeners_ok_def removeListeners_registrations
          split: if_splits)
    have eff: "run_listener_effect b new =
        (if rendered_available d1 \<noteq> Some True \<or> \<not> isConnected (rendered d1) then d1
         else (let (reg, c) = setupWalletListeners (ethereum_present b) (next_handler d1)
                               (listeners d1)
              in d1\<lparr>listeners := reg, cleanup := Some c,
                    next_handler := Suc (next_handler d1)\<rparr>))"
      by (simp add: run_listener_effect_def d1_def Let_def)
    have r: "render b d = run_listener_effect b new"
      using False by (simp add: render_def new_def [symmetric] Let_def)
    show ?thesis
    proof (cases "isConnected (walletState d)")
      case True
      with f have inst: "isMetaMaskInstalled b" and av: "isMetaMaskAvailable d = Some True"
        by (auto simp: flags_ok_def)
      then have "ethereum_present b" by (simp add: isMetaMaskInstalled_def)
      with True av clean show ?thesis
        by (auto simp: r eff listeners_ok_def setup_registrations)
    next
      case nc: False
      with clean show ?thesis
        by (simp add: r eff listeners_ok_def)
    qed
  qed
qed

lemma dashboard_ok_step:
  assumes "dashboard_ok b d"
  shows "dashboard_ok b (step b d ev)"
proof (cases "ev = Render")
  case True
  with assms flags_step [OF assms, of ev] listeners_render [OF assms] show ?thesis
    by (simp add: dashboard_ok_def)
next
  case False
  then have w: "same_wiring d (step b d ev)" by (rule handler_wiring)
  from assms have "listeners_ok d" by (simp add: dashboard_ok_def)
  then have "listeners_ok (step b d ev)" using w by (rule listeners_handler)
  with flags_step [OF assms, of ev] show ?thesis by (simp add: dashboard_ok_def)
qed

lemma dashboard_ok_mount: "dashboard_ok b (mount b)"
  by (simp add: dashboard_ok_def flags_ok_def listeners_ok_def mount_def
      INITIAL_WALLET_STATE_def Let_def)

lemma dashboard_ok_foldl:
  "dashboard_ok b d \<Longrightarrow> dashboard_ok b (foldl (step b) d evs)"
  by (induction evs arbitrary: d) (simp_all add: dashboard_ok_step)

lemma dashboard_ok_run: "dashboard_ok b (run b evs)"
  by (simp add: run_def dashboard_ok_foldl dashboard_ok_mount)

lemmas run_defs =
  run_def mount_def render_def effect_deps_def run_listener_effect_def
  metamask_def connect_ok_def check_ok_def isMetaMaskInstalled_def INITIAL_WALLET_STATE_def
  dashboard_defs dispatch_def registrations_def setupWalletListeners_def ethereum_on_def Let_def

text \<open>The guard of \<open>handleConnect\<close>: a call whose render saw the flag does nothing, so
  with a render between two calls the second one is ignored.\<close>

lemma connect_loading:
  assumes "isLoading (rendered d)"
  shows "handleConnect b d = d"
  using assms by (simp add: handleConnect_def)

lemma connect_start:
  assumes "\<not> isLoading (rendered d)" and "isMetaMaskInstalled b"
  shows "handleConnect b d =
           d\<lparr>walletState := (walletState d)\<lparr>isLoading := True, error := None\<rparr>,
              in_flight := in_flight d @ [PConnect],
              trace := trace d @ [Request ''eth_requestAccounts'']\<rparr>"
  using assms
  by (simp add: handleConnect_def updateWalletState_def emit_def await_def Let_def)


lemma rendered_render: "rendered (render b d) = walletState d"
  by (simp add: render_def run_listener_effect_def Let_def case_prod_beta split: option.splits)

lemma connect_after_render:
  assumes "\<not> isLoading (rendered d)" and "isMetaMaskInstalled b"
  shows "step b (step b (step b d ClickConnect) Render) ClickConnect =
           step b (step b d ClickConnect) Render"
proof -
  have "isLoading (rendered (step b (step b d ClickConnect) Render))"
    using assms by (simp add: connect_start rendered_render)
  then show ?thesis by (simp add: connect_loading)
qed

text \<open>Some runs of the page with MetaMask, evaluated.\<close>

lemma run_click:
  "run metamask [ClickConnect] =
     \<lparr>walletState = INITIAL_WALLET_STATE\<lparr>isLoading := True\<rparr>,
      isMetaMaskAvailable = Some True,
      rendered = INITIAL_WALLET_STATE,
      rendered_available = None,
      listeners = [],
      cleanup = None,
      next_handler = 0,
      in_flight = [PCheck, PConnect],
      trace = [Request ''eth_accounts'', Request ''eth_requestAccounts'']\<rparr>"
  by (simp add: run_defs)

lemma run_click_click:
  "run metamask [ClickConnect, ClickConnect] =
     \<lparr>walletState = INITIAL_WALLET_STATE\<lparr>isLoading := True\<rparr>,
      isMetaMaskAvailable = Some True,
      rendered = INITIAL_WALLET_STATE,
      rendered_available = None,
      listeners = [],
      cleanup = None,
      next_handler = 0,
      in_flight = [PCheck, PConnect, PConnect],
      trace = [Request ''eth_accounts'', Request ''eth_requestAccounts'',
               Request ''eth_requestAccounts'']\<rparr>"
  by (simp add: run_defs)

lemma run_connected:
  "run metamask [ClickConnect, Settle 1 connect_ok, Render] =
     \<lparr>walletState =
        \<lparr>isConnected = True, address = Some ''0x5aAeb6053F3E94C9b9A09f33669435E7Ef1BeAed'',
         chainId = Some ''0xaa36a7'', balance = Some ''1.5'', isLoading = False, error = None\<rparr>,
      isMetaMaskAvailable = Some True,
      rendered =
        \<lparr>isConnected = True, address = Some ''0x5aAeb6053F3E94C9b9A09f33669435E7Ef1BeAed'',
         chainId = Some ''0xaa36a7'', balance = Some ''1.5'', isLoading = False, error = None\<rparr>,
      rendered_available = Some True,
      listeners = registrations 0,
      cleanup = Some (removeListeners 0),
      next_handler = 1,
      in_flight = [PCheck],
      trace = [Request ''eth_accounts'', Request ''eth_requestAccounts'', Request ''eth_chainId'',
         GetBalance ''0x5aAeb6053F3E94C9b9A09f33669435E7Ef1BeAed'',
         AddToast ''Wallet connected successfully!'' T_success]\<rparr>"
  by (simp add: run_defs)

lemma run_cleared:
  "run metamask [ClickConnect, Settle 0 check_ok, Render, ClickDisconnect, Render] =
     \<lparr>walletState = INITIAL_WALLET_STATE,
      isMetaMaskAvailable = Some True,
      rendered = INITIAL_WALLET_STATE,
      rendered_available = Some True,
      listeners = [],
      cleanup = None,
      next_handler = 1,
      in_flight = [PConnect],
      trace = [Request ''eth_accounts'', Request ''eth_requestAccounts'', Request ''eth_chainId'',
         GetBalance ''0x5aaeb6053f3e94c9b9a09f33669435e7ef1beaed'',
         AddToast ''Wallet disconnected'' T_info]\<rparr>"
  by (simp add: run_defs removeListeners_def ethereum_removeListener_def)

lemma run_snoc: "run b (evs @ [ev]) = step b (run b evs) ev"
  by (simp add: run_def)

lemma run_cleared_click:
  "run metamask [ClickConnect, Settle 0 check_ok, Render, ClickDisconnect, Render, ClickConnect] =
     (run metamask [ClickConnect, Settle 0 check_ok, Render, ClickDisconnect, Render])
       \<lparr>walletState := INITIAL_WALLET_STATE\<lparr>isLoading := True\<rparr>,
        in_flight := [PConnect, PConnect],
        trace := [Request ''eth_accounts'', Request ''eth_requestAccounts'', Request ''eth_chainId'',
          GetBalance ''0x5aaeb6053f3e94c9b9a09f33669435e7ef1beaed'',
          AddToast ''Wallet disconnected'' T_info, Request ''eth_requestAccounts'']\<rparr>"
proof -
  have "run metamask [ClickConnect, Settle 0 check_ok, Render, ClickDisconnect, Render, ClickConnect] =
      step metamask (run metamask [ClickConnect, Settle 0 check_ok, Render, ClickDisconnect, Render])
        ClickConnect"
    using run_snoc [of metamask "[ClickConnect, Settle 0 check_ok, Render, ClickDisconnect, Render]" ClickConnect]
    by simp
  then show ?thesis
    unfolding run_cleared
    by (simp add: handleConnect_def updateWalletState_def emit_def await_def Let_def
        metamask_def isMetaMaskInstalled_def INITIAL_WALLET_STATE_def)
qed

lemma listeners_rendered:
  "dashboard_ok b d \<Longrightarrow> \<not> isConnected (rendered d) \<Longrightarrow> listeners d = []"
  by (simp add: dashboard_ok_def listeners_ok_def)

lemma emit_without_listeners:
  assumes "listeners d = []"
  shows "step b d (Emit we) = d"
  using assms by (simp add: dispatch_none)

lemma emit_rendered:
  assumes "dashboard_ok b d" and "isConnected (rendered d)"
  shows "step b d (Emit we) = handle_wallet_event we d"
  using assms by (simp add: dashboard_ok_def dispatch_rendered)











text \<open>The cleanup function removes its own registrations and no others.\<close>

lemma removeListener_absent:
  "(ev, h) \<notin> set reg \<Longrightarrow> ethereum_removeListener reg ev h = reg"
  by (simp add: ethereum_removeListener_def remove1_idem)

lemma removeListener_present:
  "(ev, h) \<notin> set later \<Longrightarrow>
     ethereum_removeListener (reg @ (ev, h) # later) ev h = reg @ later"
  by (simp add: ethereum_removeListener_def remove1_append)

lemma removeListeners_fresh:
  assumes "k \<notin> snd ` set reg"
  shows "removeListeners k reg = reg"
proof -
  have "(ev, k) \<notin> set reg" for ev using assms by force
  then show ?thesis by (simp add: removeListeners_def removeListener_absent)
qed

lemma removeListeners_exact:
  assumes "k \<notin> snd ` set reg" and "k \<notin> snd ` set later"
  shows "removeListeners k (reg @ registrations k @ later) = reg @ later"
proof -
  have m: "(ev, k) \<notin> set later" for ev using assms(2) by force
  have r: "(ev, k) \<notin> set reg" for ev using assms(1) by force
  have 1: "ethereum_removeListener (reg @ registrations k @ later) ''accountsChanged'' k =
      reg @ [(''chainChanged'', k), (''disconnect'', k)] @ later"
    using removeListener_present [of "''accountsChanged''" k
        "[(''chainChanged'', k), (''disconnect'', k)] @ later" reg] m
    by (simp add: registrations_def)
  have 2: "ethereum_removeListener (reg @ [(''chainChanged'', k), (''disconnect'', k)] @ later)
        ''chainChanged'' k = reg @ [(''disconnect'', k)] @ later"
    using removeListener_present [of "''chainChanged''" k "[(''disconnect'', k)] @ later" reg] m
    by simp
  have 3: "ethereum_removeListener (reg @ [(''disconnect'', k)] @ later) ''disconnect'' k =
      reg @ later"
    using removeListener_present [of "''disconnect''" k later reg] m by simp
  show ?thesis by (simp only: removeListeners_def 1 2 3)
qed

lemma listeners_iff_rendered:
  "dashboard_ok b d \<Longrightarrow> (listeners d \<noteq> []) = isConnected (rendered d)"
  by (auto simp: dashboard_ok_def listeners_ok_def registrations_def split: if_splits)

lemma step_disconnects:
  assumes ok: "dashboard_ok b d"
      and ev: "ev = ClickDisconnect \<or>
               (ev = Emit Disconnect \<or> ev = Emit (AccountsChanged [])) \<and>
               (isConnected (walletState d) \<longrightarrow> listeners d \<noteq> [])"
  shows "\<not> isConnected (walletState (step b d ev))"
proof (cases "isConnected (rendered d)")
  case True
  with ok have "step b d (Emit we) = handle_wallet_event we d" for we by (rule emit_rendered)
  with ev show ?thesis
    by (auto simp: dashboard_defs INITIAL_WALLET_STATE_def)
next
  case False
  with ok have l: "listeners d = []" by (rule listeners_rendered)
  then have "step b d (Emit we) = d" for we by (rule emit_without_listeners)
  with ev l show ?thesis
    by (auto simp: dashboard_defs INITIAL_WALLET_STATE_def)
qed

lemma render_disconnected:
  assumes ok: "dashboard_ok b d" and n: "\<not> isConnected (walletState d)"
  shows "listeners (step b d Render) = []"
proof -
  have "dashboard_ok b (step b d Render)" using ok by (rule dashboard_ok_step)
  moreover have "\<not> isConnected (rendered (step b d Render))" using n by (simp add: rendered_render)
  ultimately show ?thesis by (rule listeners_rendered)
qed

text \<open>The listeners stay registered until the render after a reset. An account change that
  arrives in between reaches \<open>handleAccountsChanged\<close>, which stores the new address in the
  state that was just reset: an address without a connection.\<close>

lemma run_reset_then_account:
  "walletState (run metamask [ClickConnect, Settle 1 connect_ok, Render,
       Emit (AccountsChanged []), Emit (AccountsChanged [''0xb0b''])]) =
     \<lparr>isConnected = False, address = Some ''0xb0b'', chainId = None, balance = None,
      isLoading = False, error = None\<rparr>"
proof -
  have "run metamask [ClickConnect, Settle 1 connect_ok, Render,
       Emit (AccountsChanged []), Emit (AccountsChanged [''0xb0b''])] =
     step metamask (step metamask (run metamask [ClickConnect, Settle 1 connect_ok, Render])
       (Emit (AccountsChanged []))) (Emit (AccountsChanged [''0xb0b'']))"
    by (simp add: run_def)
  then show ?thesis
    unfolding run_connected
    by (simp add: dispatch_def registrations_def dashboard_defs INITIAL_WALLET_STATE_def)
qed


section \<open>The claims about the session\<close>

text \<open>
  C1. The claim fails on the code. \<open>handleConnect\<close> means to do nothing while a connection
  attempt is loading, and tests \<open>walletState.isLoading\<close> for it. But the value it tests is
  the one of the render the handler belongs to, and the first call only asks React to
  change the state: a second call of the same handler, before React has rendered, passes
  the test too. After the mount with MetaMask installed, one call leaves the status
  Connecting with its request in flight, and a second call right after it sends
  \<open>eth_requestAccounts\<close> again. The flag is also not the attempt: when the check at the
  mount finds an account while an attempt is in flight and the user then disconnects, the
  state is reset, the page renders without the flag, the attempt is still in flight, and
  the next call sends a second request.
\<close>

theorem second_connect_requests_again:
  "connectionStatus (walletState (run metamask [ClickConnect])) = Connecting \<and>
   in_flight (run metamask [ClickConnect]) = [PCheck, PConnect] \<and>
   trace (run metamask [ClickConnect, ClickConnect]) =
     [Request ''eth_accounts'', Request ''eth_requestAccounts'', Request ''eth_requestAccounts''] \<and>
   in_flight (run metamask [ClickConnect, ClickConnect]) = [PCheck, PConnect, PConnect] \<and>
   count_list (trace (run metamask [ClickConnect, ClickConnect]))
     (Request ''eth_requestAccounts'') = 2 \<and>
   in_flight (run metamask [ClickConnect, Settle 0 check_ok, Render, ClickDisconnect, Render]) =
     [PConnect] \<and>
   count_list
     (trace (run metamask
        [ClickConnect, Settle 0 check_ok, Render, ClickDisconnect, Render, ClickConnect]))
     (Request ''eth_requestAccounts'') = 2"
  by (simp add: run_click run_click_click run_cleared run_cleared_click connectionStatus_def
      INITIAL_WALLET_STATE_def)

text \<open>
  C2. \<open>handleAccountsChanged\<close> with an empty list resets the wallet state to the initial
  one and shows the notification "Wallet disconnected". In every reachable state in which
  the page shows the wallet connected (its listeners are registered exactly then), an
  \<open>accountsChanged\<close> event of the wallet with an empty list reaches that handler exactly
  once: afterwards the connection flag is false,
  address, chain, balance and error are absent, the status is Disconnected, and the
  notification is the one effect added.
\<close>

theorem empty_accounts_resets_session:
  "walletState (handleAccountsChanged [] d) = INITIAL_WALLET_STATE \<and>
   trace (handleAccountsChanged [] d) = trace d @ [AddToast ''Wallet disconnected'' T_info] \<and>
   (isConnected (rendered (run b evs)) \<or> listeners (run b evs) \<noteq> [] \<longrightarrow>
      walletState (step b (run b evs) (Emit (AccountsChanged []))) =
        \<lparr>isConnected = False, address = None, chainId = None, balance = None,
         isLoading = False, error = None\<rparr> \<and>
      connectionStatus (walletState (step b (run b evs) (Emit (AccountsChanged [])))) =
        Disconnected \<and>
      trace (step b (run b evs) (Emit (AccountsChanged []))) =
        trace (run b evs) @ [AddToast ''Wallet disconnected'' T_info])"
proof (intro conjI impI)
  show "walletState (handleAccountsChanged [] d) = INITIAL_WALLET_STATE"
    by (simp add: handleAccountsChanged_def addToast_def emit_def)
  show "trace (handleAccountsChanged [] d) = trace d @ [AddToast ''Wallet disconnected'' T_info]"
    by (simp add: handleAccountsChanged_def addToast_def emit_def)
next
  assume "isConnected (rendered (run b evs)) \<or> listeners (run b evs) \<noteq> []"
  then have c: "isConnected (rendered (run b evs))"
    using listeners_iff_rendered [OF dashboard_ok_run, of b evs] by blast
  have s: "step b (run b evs) (Emit (AccountsChanged [])) =
      handleAccountsChanged [] (run b evs)"
    using emit_rendered [OF dashboard_ok_run c, of "AccountsChanged []"] by simp
  show "walletState (step b (run b evs) (Emit (AccountsChanged []))) =
        \<lparr>isConnected = False, address = None, chainId = None, balance = None,
         isLoading = False, error = None\<rparr>"
    unfolding s
    by (simp add: handleAccountsChanged_def addToast_def emit_def INITIAL_WALLET_STATE_def)
  show "connectionStatus (walletState (step b (run b evs) (Emit (AccountsChanged [])))) =
        Disconnected"
    unfolding s
    by (simp add: handleAccountsChanged_def addToast_def emit_def INITIAL_WALLET_STATE_def
        connectionStatus_def)
  show "trace (step b (run b evs) (Emit (AccountsChanged []))) =
        trace (run b evs) @ [AddToast ''Wallet disconnected'' T_info]"
    unfolding s
    by (simp add: handleAccountsChanged_def addToast_def emit_def)
qed

theorem empty_accounts_resets_session_witness:
  "isConnected (rendered (run metamask [ClickConnect, Settle 1 connect_ok, Render])) \<and>
   walletState (step metamask (run metamask [ClickConnect, Settle 1 connect_ok, Render])
       (Emit (AccountsChanged []))) =
     \<lparr>isConnected = False, address = None, chainId = None, balance = None,
      isLoading = False, error = None\<rparr> \<and>
   trace (step metamask (run metamask [ClickConnect, Settle 1 connect_ok, Render])
       (Emit (AccountsChanged []))) =
     trace (run metamask [ClickConnect, Settle 1 connect_ok, Render]) @
       [AddToast ''Wallet disconnected'' T_info]"
proof -
  have c: "isConnected (rendered (run metamask [ClickConnect, Settle 1 connect_ok, Render]))"
    unfolding run_connected by simp
  from empty_accounts_resets_session
    [of undefined metamask "[ClickConnect, Settle 1 connect_ok, Render]"] c
  show ?thesis by blast
qed




text \<open>
  C10. With a wallet, \<open>setupWalletListeners\<close> registers one handler for each of
  \<open>accountsChanged\<close>, \<open>chainChanged\<close> and \<open>disconnect\<close>, after the listeners already there,
  and returns \<open>removeListeners\<close>; the handlers are new closures, so their number \<open>k\<close> occurs
  nowhere else in the list. Called on the list later, whatever was registered in between,
  the cleanup removes these three registrations and nothing else, and calling it again
  changes nothing. Without a wallet nothing is registered and the cleanup is the identity.
  On the page, in any reachable state: after a click on Disconnect, or after a
  \<open>disconnect\<close> event or an \<open>accountsChanged\<close> event with an empty list that finds the
  listeners registered if the wallet is connected, the next render runs the cleanup: no
  listener of the page is registered, and an event the wallet emits then leaves the page
  as it is.
\<close>

theorem listeners_setup_and_cleanup:
  "setupWalletListeners True k reg =
     (reg @ [(''accountsChanged'', k), (''chainChanged'', k), (''disconnect'', k)],
      removeListeners k) \<and>
   (k \<notin> snd ` set reg \<and> k \<notin> snd ` set later \<longrightarrow>
      removeListeners k (fst (setupWalletListeners True k reg) @ later) = reg @ later \<and>
      removeListeners k (removeListeners k (fst (setupWalletListeners True k reg) @ later)) =
        removeListeners k (fst (setupWalletListeners True k reg) @ later)) \<and>
   fst (setupWalletListeners False k reg) = reg \<and>
   snd (setupWalletListeners False k reg) later = later \<and>
   (ev = ClickDisconnect \<or>
    (ev = Emit Disconnect \<or> ev = Emit (AccountsChanged [])) \<and>
    (isConnected (walletState (run b evs)) \<longrightarrow> listeners (run b evs) \<noteq> []) \<longrightarrow>
      listeners (step b (step b (run b evs) ev) Render) = [] \<and>
      step b (step b (step b (run b evs) ev) Render) (Emit we) =
        step b (step b (run b evs) ev) Render)"
proof (intro conjI impI)
  show s: "setupWalletListeners True k reg =
     (reg @ [(''accountsChanged'', k), (''chainChanged'', k), (''disconnect'', k)],
      removeListeners k)"
    by (simp add: setupWalletListeners_def ethereum_on_def)
  show "fst (setupWalletListeners False k reg) = reg"
    by (simp add: setupWalletListeners_def)
  show "snd (setupWalletListeners False k reg) later = later"
    by (simp add: setupWalletListeners_def)
  {
    assume f: "k \<notin> snd ` set reg \<and> k \<notin> snd ` set later"
    have e: "fst (setupWalletListeners True k reg) @ later = reg @ registrations k @ later"
      by (simp add: s registrations_def)
    from f have x: "removeListeners k (reg @ registrations k @ later) = reg @ later"
      by (simp add: removeListeners_exact)
    show "removeListeners k (fst (setupWalletListeners True k reg) @ later) = reg @ later"
      unfolding e by (rule x)
    from f have "k \<notin> snd ` set (reg @ later)" by auto
    then have "removeListeners k (reg @ later) = reg @ later" by (rule removeListeners_fresh)
    then show "removeListeners k (removeListeners k (fst (setupWalletListeners True k reg) @ later)) =
        removeListeners k (fst (setupWalletListeners True k reg) @ later)"
      unfolding e x .
  }
  {
    assume d: "ev = ClickDisconnect \<or>
      (ev = Emit Disconnect \<or> ev = Emit (AccountsChanged [])) \<and>
      (isConnected (walletState (run b evs)) \<longrightarrow> listeners (run b evs) \<noteq> [])"
    have ok: "dashboard_ok b (step b (run b evs) ev)"
      by (rule dashboard_ok_step) (rule dashboard_ok_run)
    have "\<not> isConnected (walletState (step b (run b evs) ev))"
      using dashboard_ok_run d by (rule step_disconnects)
    with ok show l: "listeners (step b (step b (run b evs) ev) Render) = []"
      by (rule render_disconnected)
    then show "step b (step b (step b (run b evs) ev) Render) (Emit we) =
        step b (step b (run b evs) ev) Render"
      by (rule emit_without_listeners)
  }
qed

theorem listeners_setup_and_cleanup_witness:
  "listeners (run metamask [ClickConnect, Settle 1 connect_ok, Render]) = registrations 0 \<and>
   listeners (step metamask
       (step metamask (run metamask [ClickConnect, Settle 1 connect_ok, Render]) ClickDisconnect)
       Render) = [] \<and>
   step metamask
       (step metamask
          (step metamask (run metamask [ClickConnect, Settle 1 connect_ok, Render]) ClickDisconnect)
          Render)
       (Emit (ChainChanged ''0x1'')) =
     step metamask
       (step metamask (run metamask [ClickConnect, Settle 1 connect_ok, Render]) ClickDisconnect)
       Render \<and>
   isConnected (walletState (run metamask [ClickConnect, Settle 1 connect_ok, Render])) \<and>
   listeners (run metamask [ClickConnect, Settle 1 connect_ok, Render]) \<noteq> [] \<and>
   listeners (step metamask
       (step metamask (run metamask [ClickConnect, Settle 1 connect_ok, Render])
          (Emit (AccountsChanged [])))
       Render) = [] \<and>
   removeListeners 3
       (fst (setupWalletListeners True 3 [(''accountsChanged'', 1)]) @ [(''chainChanged'', 5)]) =
     [(''accountsChanged'', 1)] @ [(''chainChanged'', 5)]"
proof -
  have r: "listeners (run metamask [ClickConnect, Settle 1 connect_ok, Render]) = registrations 0"
    unfolding run_connected by simp
  have c: "isConnected (walletState (run metamask [ClickConnect, Settle 1 connect_ok, Render]))"
      "listeners (run metamask [ClickConnect, Settle 1 connect_ok, Render]) \<noteq> []"
    unfolding run_connected by (simp_all add: registrations_def)
  have f: "(3::nat) \<notin> snd ` set [(''accountsChanged'', 1::nat)] \<and>
      (3::nat) \<notin> snd ` set [(''chainChanged'', 5::nat)]"
    by simp
  from listeners_setup_and_cleanup [of 3 "[(''accountsChanged'', 1)]" "[(''chainChanged'', 5)]"
      ClickDisconnect metamask "[ClickConnect, Settle 1 connect_ok, Render]" "ChainChanged ''0x1''"]
    listeners_setup_and_cleanup [of 3 "[(''accountsChanged'', 1)]" "[(''chainChanged'', 5)]"
      "Emit (AccountsChanged [])" metamask "[ClickConnect, Settle 1 connect_ok, Render]"
      "ChainChanged ''0x1''"] r c f
  show ?thesis by blast
qed

end
